theory Spec2Isabelle
  imports Complex_Main "HOL-Library.Word"
begin

section \<open>Playlist generation of the m3u8 library (writer.go)\<close>

text \<open>
  This theory embeds the playlist writer of the m3u8 library: the circular segment store
  of a media playlist with its mutators, and the text encoders of the media and the master
  playlist. Every Go method with a pointer receiver becomes a function that takes the
  playlist and returns the playlist after the call.
\<close>

subsection \<open>Errors and panics\<close>

text \<open>
  The two package-level error values, and the errors the methods build on the spot with
  \<^verbatim>\<open>errors.New\<close>. \<open>Error\<close> is the message an error value carries.
\<close>

datatype error = ErrPlaylistFull | ErrPlaylistEmpty | errors_New string

fun Error :: "error \<Rightarrow> string" where
  "Error ErrPlaylistFull = ''playlist is full''"
| "Error ErrPlaylistEmpty = ''playlist is empty''"
| "Error (errors_New msg) = msg"

text \<open>
  The run-time panics the code can reach: an index out of range, an integer division by
  zero (\<^verbatim>\<open>%\<close> with a zero divisor) and a nil pointer dereference. A function that can
  panic returns \<open>Inl\<close> of the panic; the playlist is not observed after a panic.
\<close>

datatype panic = IndexOutOfRange | DivideByZero | NilDereference

subsection \<open>Data model\<close>

text \<open>
  The struct declarations live in structure.go; the records below list the fields that
  writer.go reads and writes, with the types it uses them at.

  \<^item> \<^verbatim>\<open>float64\<close> is \<open>rat\<close>: every finite float is a rational, and on finite floats the
    comparisons and \<^verbatim>\<open>math.Ceil\<close> are exact. NaN and the infinities are outside the model.
  \<^item> \<^verbatim>\<open>uint64\<close> sequence numbers are \<open>64 word\<close>, \<^verbatim>\<open>uint8\<close> versions \<open>8 word\<close>,
    \<^verbatim>\<open>uint32\<close> variant parameters \<open>32 word\<close>.
  \<^item> \<^verbatim>\<open>uint\<close> (head, tail, count, capacity, winsize) is \<open>nat\<close>: these fields are slots of
    and lengths of the segment slice. The one unsigned subtraction that can pass below zero
    (\<^verbatim>\<open>capacity - 1\<close> in \<^verbatim>\<open>last\<close>) has its wrap-around written out for the 64-bit \<^verbatim>\<open>uint\<close>.
  \<^item> \<^verbatim>\<open>int64\<close> byte ranges are \<open>int\<close>; they are only compared with 0 and printed.
  \<^item> \<^verbatim>\<open>time.Time\<close> is the number of nanoseconds since the zero time, so that
    \<^verbatim>\<open>IsZero\<close> is the comparison with 0.
  \<^item> A pointer that may be nil is an \<open>option\<close>. A \<^verbatim>\<open>*Key\<close> is compared by address in the
    encoder, so a key reference carries the address of the \<^verbatim>\<open>Key\<close> object it points to.
  \<^item> A Go map that the encoder ranges over is an association list: the list order stands
    for the iteration order that the Go run time picks.
\<close>

type_synonym float64 = rat
type_synonym Time = int

definition IsZero :: "Time \<Rightarrow> bool" where
  "IsZero t = (t = 0)"

record Key =
  Method :: string
  URI :: string
  IV :: string
  Keyformat :: string
  Keyformatversions :: string

text \<open>A non-nil \<^verbatim>\<open>*Key\<close>: the address of the object and the object found there.\<close>

datatype KeyPtr = KeyPtr (addr: nat) (deref: Key)

text \<open>Pointer comparison \<^verbatim>\<open>a == b\<close> on two \<^verbatim>\<open>*Key\<close> values.\<close>

fun ptr_eq :: "KeyPtr option \<Rightarrow> KeyPtr option \<Rightarrow> bool" where
  "ptr_eq None None = True"
| "ptr_eq (Some a) (Some b) = (addr a = addr b)"
| "ptr_eq _ _ = False"

record Map =
  URI :: string
  Limit :: int
  Offset :: int

datatype SCTE35Syntax = SCTE35_67_2014 | SCTE35_OATCLS | SCTE35Syntax_other
datatype SCTE35CueType = SCTE35Cue_Start | SCTE35Cue_Mid | SCTE35Cue_End | SCTE35Cue_other

record SCTE =
  Syntax :: SCTE35Syntax
  CueType :: SCTE35CueType
  Cue :: string
  ID :: string
  Time :: float64
  Elapsed :: float64

record DateRange =
  ID :: string
  Class :: string
  StartDate :: Time
  EndDate :: Time
  Duration :: float64
  PlannedDuration :: float64
  SCTE35Cmd :: string
  SCTE35In :: string
  SCTE35Out :: string
  EndOnNext :: string
  XResumeOfsset :: float64
  XPlayoutLimit :: float64
  XSnap :: string
  XRestrict :: string
  XAssetURI :: string
  XAssetList :: string
  X :: "(string \<times> string) list"

text \<open>
  The \<^verbatim>\<open>CustomTag\<close> interface: the encoder calls \<^verbatim>\<open>TagName()\<close> and \<^verbatim>\<open>Encode()\<close>, which
  returns a buffer or nil. A tag is modelled by what the two calls return.
\<close>

record CustomTag =
  TagName :: string
  Encode :: "string option"

text \<open>\<^verbatim>\<open>m[tag.TagName()] = tag\<close> on a map held as an association list.\<close>

fun map_set :: "(string \<times> 'v) list \<Rightarrow> string \<Rightarrow> 'v \<Rightarrow> (string \<times> 'v) list" where
  "map_set [] k v = [(k, v)]"
| "map_set ((k', v') # m) k v = (if k' = k then (k, v) # m else (k', v') # map_set m k v)"

record MediaSegment =
  SeqId :: "64 word"
  Title :: string
  URI :: string
  Duration :: float64
  Limit :: int
  Offset :: int
  Key :: "KeyPtr option"
  Map :: "Map option"
  Discontinuity :: bool
  Gap :: bool
  SCTE :: "SCTE option"
  ProgramDateTime :: Time
  DateRange :: "DateRange list"
  Custom :: "(string \<times> CustomTag) list"

text \<open>\<^verbatim>\<open>new(MediaSegment)\<close>: every field has its zero value.\<close>

definition new_MediaSegment :: MediaSegment where
  "new_MediaSegment =
     \<lparr>SeqId = 0, Title = [], URI = [], Duration = 0, Limit = 0, Offset = 0, Key = None,
      Map = None, Discontinuity = False, Gap = False, SCTE = None, ProgramDateTime = 0,
      DateRange = [], Custom = []\<rparr>"

datatype MediaType = MediaType_0 | EVENT | VOD | MediaType_other

record WV =
  AudioChannels :: nat
  AudioFormat :: nat
  AudioProfileIDC :: nat
  AudioSampleSize :: nat
  AudioSamplingFrequency :: nat
  CypherVersion :: string
  ECM :: string
  VideoFormat :: nat
  VideoFrameRate :: nat
  VideoLevelIDC :: nat
  VideoProfileIDC :: nat
  VideoResolution :: string
  VideoSAR :: string

text \<open>
  The media playlist. \<open>Segments\<close> is the slice \<^verbatim>\<open>[]*MediaSegment\<close> (a nil slot is
  \<open>None\<close>) and \<open>spare\<close> holds the elements of its backing array between its length
  and its capacity, which \<^verbatim>\<open>InsertSegments\<close> brings into view when it reslices. Each slot
  owns its segment: the segment pointers held in the slice are pairwise distinct, as they
  are for the segments that \<^verbatim>\<open>Append\<close> allocates. \<open>buf\<close> is the content of the
  \<^verbatim>\<open>bytes.Buffer\<close> that caches the encoded playlist.
\<close>

record MediaPlaylist =
  TargetDuration :: float64
  SeqNo :: "64 word"
  Segments :: "MediaSegment option list"
  spare :: "MediaSegment option list"
  Args :: string
  Iframe :: bool
  Closed :: bool
  MediaType :: MediaType
  DiscontinuitySeq :: "64 word"
  StartTime :: float64
  StartTimePrecise :: bool
  durationAsInt :: bool
  winsize :: nat
  capacity :: nat
  head :: nat
  tail :: nat
  count :: nat
  buf :: string
  ver :: "8 word"
  Key :: "KeyPtr option"
  Map :: "Map option"
  WV :: "WV option"
  Custom :: "(string \<times> CustomTag) list"
  independentSegments :: bool

text \<open>The result of a method that returns \<^verbatim>\<open>error\<close>: the error (nil is \<open>None\<close>) and the playlist after the call, or a panic.\<close>

type_synonym result = "panic + (error option \<times> MediaPlaylist)"

subsection \<open>Versions\<close>

definition version :: "8 word \<Rightarrow> 8 word \<Rightarrow> 8 word" where
  "version v newver = (if v < newver then newver else v)"

subsection \<open>The segment store\<close>

text \<open>\<^verbatim>\<open>buf.Reset()\<close> empties the cache.\<close>

definition ResetCache :: "MediaPlaylist \<Rightarrow> MediaPlaylist" where
  "ResetCache p = p\<lparr>buf := []\<rparr>"

definition SetWinSize :: "nat \<Rightarrow> MediaPlaylist \<Rightarrow> error option \<times> MediaPlaylist" where
  "SetWinSize w p =
     (if w > capacity p
      then (Some (errors_New ''capacity must be greater than winsize or equal''), p)
      else (None, p\<lparr>winsize := w\<rparr>))"

text \<open>
  \<^verbatim>\<open>NewMediaPlaylist(winsize, capacity)\<close>. The constant \<^verbatim>\<open>minver\<close> is declared in
  structure.go and is a parameter here. The constructor returns nil and the error when
  the window does not fit.
\<close>

definition new_MediaPlaylist :: MediaPlaylist where
  "new_MediaPlaylist =
     \<lparr>TargetDuration = 0, SeqNo = 0, Segments = [], spare = [], Args = [], Iframe = False,
      Closed = False, MediaType = MediaType_0, DiscontinuitySeq = 0, StartTime = 0,
      StartTimePrecise = False, durationAsInt = False, winsize = 0, capacity = 0, head = 0,
      tail = 0, count = 0, buf = [], ver = 0, Key = None, Map = None, WV = None,
      Custom = [], independentSegments = False\<rparr>"

definition NewMediaPlaylist :: "8 word \<Rightarrow> nat \<Rightarrow> nat \<Rightarrow> error + MediaPlaylist" where
  "NewMediaPlaylist minver w c =
     (let p = new_MediaPlaylist\<lparr>ver := minver, capacity := c\<rparr> in
      case SetWinSize w p of
        (Some err, _) \<Rightarrow> Inl err
      | (None, p') \<Rightarrow> Inr (p'\<lparr>Segments := replicate c None\<rparr>))"

text \<open>
  Go's \<^verbatim>\<open>copy(xs[off:], src)\<close>: it copies as many elements as the shorter of the two
  slices holds, and reads \<open>src\<close> as it was before the call when the two overlap.
\<close>

definition copy_at :: "'a list \<Rightarrow> nat \<Rightarrow> 'a list \<Rightarrow> 'a list" where
  "copy_at xs off src =
     (let k = min (length xs - off) (length src)
      in take off xs @ take k src @ drop (off + k) xs)"

text \<open>The insertion index that \<^verbatim>\<open>InsertSegments\<close> picks from \<^verbatim>\<open>seqID\<close> and \<^verbatim>\<open>len(p.Segments)\<close>.\<close>

definition insertIndex :: "MediaPlaylist \<Rightarrow> 64 word \<Rightarrow> nat" where
  "insertIndex p seqID =
     (if unat seqID \<ge> length (Segments p) then length (Segments p)
      else if seqID \<noteq> 0 \<and> unat seqID < length (Segments p) then unat seqID - 1
      else 0)"

text \<open>
  The first renumbering loop, over the slots \<open>i = insertIndex, ..\<close> of the inserted
  span; \<open>it\<close> is the loop's \<^verbatim>\<open>iterator\<close>. It dereferences the slot without a nil check.
\<close>

fun adjust_inserted :: "nat \<Rightarrow> nat list \<Rightarrow> MediaSegment option list \<Rightarrow> panic + MediaSegment option list" where
  "adjust_inserted ins [] segs = Inr segs"
| "adjust_inserted ins (i # is) segs =
     (if i \<ge> length segs then Inl IndexOutOfRange
      else case segs ! i of
        None \<Rightarrow> Inl NilDereference
      | Some s \<Rightarrow> adjust_inserted ins is (segs[i := Some (s\<lparr>SeqId := of_nat (ins + (i - ins + 1))\<rparr>)]))"

text \<open>The second loop, over the slots after the inserted span; nil slots are skipped.\<close>

fun adjust_following :: "nat \<Rightarrow> nat list \<Rightarrow> MediaSegment option list \<Rightarrow> MediaSegment option list" where
  "adjust_following adj [] segs = segs"
| "adjust_following adj (i # is) segs =
     (case segs ! i of
        None \<Rightarrow> adjust_following adj is segs
      | Some s \<Rightarrow> adjust_following adj is (segs[i := Some (s\<lparr>SeqId := SeqId s + of_nat adj\<rparr>)]))"

definition InsertSegments :: "MediaSegment option list \<Rightarrow> 64 word \<Rightarrow> MediaPlaylist \<Rightarrow> result" where
  "InsertSegments segments seqID p =
     (if length segments = 0 then Inr (Some ErrPlaylistEmpty, p)
      else
        let ins = insertIndex p seqID;
            adjustment = length segments;
            newLength = length (Segments p) + length segments;
            (shifted, spare') =
              (if length (Segments p) + length (spare p) < newLength
               then
                 (let newSegments = replicate newLength None;
                      newSegments = copy_at newSegments 0 (take ins (Segments p));
                      newSegments = copy_at newSegments (ins + length segments) (drop ins (Segments p))
                  in (newSegments, []))
               else
                 (let resliced = Segments p @ take (length segments) (spare p)
                  in (copy_at resliced (ins + length segments) (drop ins resliced),
                      drop (length segments) (spare p))));
            inserted = copy_at shifted ins segments
        in case adjust_inserted ins [ins ..< ins + length segments] inserted of
             Inl e \<Rightarrow> Inl e
           | Inr renumbered \<Rightarrow>
               let segs = adjust_following adjustment [ins + length segments ..< length renumbered] renumbered;
                   p = p\<lparr>Segments := segs, spare := spare'\<rparr>;
                   p = p\<lparr>count := count p + adjustment\<rparr>;
                   p = p\<lparr>capacity := capacity p + adjustment\<rparr>;
                   p = p\<lparr>tail := count p\<rparr>
               in Inr (None, ResetCache p))"

text \<open>
  \<^verbatim>\<open>SetMediaSegments(segments)\<close>; the argument is a slice, given by its elements and the
  rest of its backing array.
\<close>

definition SetMediaSegments :: "MediaSegment option list \<Rightarrow> MediaSegment option list \<Rightarrow> MediaPlaylist \<Rightarrow> MediaPlaylist" where
  "SetMediaSegments segments segments_spare p =
     (let p = p\<lparr>Segments := segments, spare := segments_spare\<rparr>;
          p = p\<lparr>count := length segments\<rparr>;
          p = p\<lparr>tail := count p\<rparr>;
          p = p\<lparr>capacity := count p\<rparr>
      in ResetCache p)"

text \<open>\<^verbatim>\<open>last()\<close>: the slot written last. \<^verbatim>\<open>capacity - 1\<close> wraps around when the capacity is 0.\<close>

definition maxUint :: nat where
  "maxUint = 2 ^ 64 - 1"

definition last_idx :: "MediaPlaylist \<Rightarrow> nat" where
  "last_idx p =
     (if tail p = 0 then (if capacity p = 0 then maxUint else capacity p - 1)
      else tail p - 1)"

definition Remove :: "MediaPlaylist \<Rightarrow> result" where
  "Remove p =
     (if count p = 0 then Inr (Some (errors_New ''playlist is empty''), p)
      else if capacity p = 0 then Inl DivideByZero
      else
        let p = p\<lparr>head := (head p + 1) mod capacity p\<rparr>;
            p = p\<lparr>count := count p - 1\<rparr>;
            p = (if \<not> Closed p then p\<lparr>SeqNo := SeqNo p + 1\<rparr> else p)
        in Inr (None, ResetCache p))"

text \<open>
  \<^verbatim>\<open>AppendSegment(seg)\<close>. The segment is passed by its content; the slot it is written to
  holds it with the sequence id assigned here.
\<close>

definition AppendSegment :: "MediaSegment \<Rightarrow> MediaPlaylist \<Rightarrow> result" where
  "AppendSegment seg p =
     (if head p = tail p \<and> count p > 0 then Inr (Some ErrPlaylistFull, p)
      else
        let seg = seg\<lparr>SeqId := SeqNo p\<rparr> in
        case (if count p > 0
              then (if capacity p = 0 then Inl DivideByZero
                    else let j = (capacity p + tail p - 1) mod capacity p in
                      if j \<ge> length (Segments p) then Inl IndexOutOfRange
                      else case Segments p ! j of
                        None \<Rightarrow> Inl NilDereference
                      | Some prev \<Rightarrow> Inr (seg\<lparr>SeqId := SeqId prev + 1\<rparr>))
              else Inr seg) of
          Inl e \<Rightarrow> Inl e
        | Inr seg \<Rightarrow>
            if tail p \<ge> length (Segments p) then Inl IndexOutOfRange
            else if capacity p = 0 then Inl DivideByZero
            else
              let p = p\<lparr>Segments := (Segments p)[tail p := Some seg]\<rparr>;
                  p = p\<lparr>tail := (tail p + 1) mod capacity p\<rparr>;
                  p = p\<lparr>count := count p + 1\<rparr>;
                  p = (if TargetDuration p < Duration seg
                       then p\<lparr>TargetDuration := of_int \<lceil>Duration seg\<rceil>\<rparr> else p)
              in Inr (None, ResetCache p))"

definition Append :: "string \<Rightarrow> float64 \<Rightarrow> string \<Rightarrow> MediaPlaylist \<Rightarrow> result" where
  "Append uri duration title p =
     (let seg = new_MediaSegment;
          seg = seg\<lparr>MediaSegment.URI := uri\<rparr>;
          seg = seg\<lparr>MediaSegment.Duration := duration\<rparr>;
          seg = seg\<lparr>Title := title\<rparr>
      in AppendSegment seg p)"

text \<open>\<^verbatim>\<open>Slide\<close> drops the errors of the two calls it makes and returns nothing.\<close>

definition Slide :: "string \<Rightarrow> float64 \<Rightarrow> string \<Rightarrow> MediaPlaylist \<Rightarrow> panic + MediaPlaylist" where
  "Slide uri duration title p =
     (case (if \<not> Closed p \<and> count p \<ge> winsize p
            then (case Remove p of Inl e \<Rightarrow> Inl e | Inr (_, p') \<Rightarrow> Inr p')
            else Inr p) of
        Inl e \<Rightarrow> Inl e
      | Inr p \<Rightarrow> (case Append uri duration title p of Inl e \<Rightarrow> Inl e | Inr (_, p') \<Rightarrow> Inr p'))"

subsection \<open>Playlist-wide setters\<close>

definition DurationAsInt :: "bool \<Rightarrow> MediaPlaylist \<Rightarrow> MediaPlaylist" where
  "DurationAsInt yes p =
     (let p = (if yes then p\<lparr>ver := version (ver p) 3\<rparr> else p)
      in p\<lparr>durationAsInt := yes\<rparr>)"

definition Count :: "MediaPlaylist \<Rightarrow> nat" where
  "Count p = count p"

text \<open>\<^verbatim>\<open>Close\<close> patches a cache that is filled instead of emptying it.\<close>

definition Close :: "MediaPlaylist \<Rightarrow> MediaPlaylist" where
  "Close p =
     (let p = (if length (buf p) > 0 then p\<lparr>buf := buf p @ ''#EXT-X-ENDLIST\<newline>''\<rparr> else p)
      in p\<lparr>Closed := True\<rparr>)"

text \<open>
  \<^verbatim>\<open>&Key{...}\<close> allocates a new object. The functions that allocate a key take the address
  \<open>a\<close> of the new object, which no other key reference holds.
\<close>

definition SetDefaultKey :: "nat \<Rightarrow> string \<Rightarrow> string \<Rightarrow> string \<Rightarrow> string \<Rightarrow> string \<Rightarrow> MediaPlaylist \<Rightarrow> error option \<times> MediaPlaylist" where
  "SetDefaultKey a method uri iv keyformat keyformatversions p =
     (let p = (if keyformat \<noteq> [] \<or> keyformatversions \<noteq> [] then p\<lparr>ver := version (ver p) 5\<rparr> else p);
          p = p\<lparr>MediaPlaylist.Key := Some (KeyPtr a
                \<lparr>Method = method, Key.URI = uri, IV = iv, Keyformat = keyformat,
                 Keyformatversions = keyformatversions\<rparr>)\<rparr>
      in (None, p))"

definition SetDefaultMap :: "string \<Rightarrow> int \<Rightarrow> int \<Rightarrow> MediaPlaylist \<Rightarrow> MediaPlaylist" where
  "SetDefaultMap uri limit offset p =
     (let p = p\<lparr>ver := version (ver p) 5\<rparr>
      in p\<lparr>MediaPlaylist.Map := Some \<lparr>Map.URI = uri, Map.Limit = limit, Map.Offset = offset\<rparr>\<rparr>)"

definition SetIframeOnly :: "MediaPlaylist \<Rightarrow> MediaPlaylist" where
  "SetIframeOnly p = (let p = p\<lparr>ver := version (ver p) 4\<rparr> in p\<lparr>Iframe := True\<rparr>)"

definition SetCustomTag :: "CustomTag \<Rightarrow> MediaPlaylist \<Rightarrow> MediaPlaylist" where
  "SetCustomTag tag p = p\<lparr>MediaPlaylist.Custom := map_set (MediaPlaylist.Custom p) (TagName tag) tag\<rparr>"

definition Version :: "MediaPlaylist \<Rightarrow> 8 word" where
  "Version p = ver p"

definition SetVersion :: "8 word \<Rightarrow> MediaPlaylist \<Rightarrow> MediaPlaylist" where
  "SetVersion v p = p\<lparr>ver := v\<rparr>"

definition WinSize :: "MediaPlaylist \<Rightarrow> nat" where
  "WinSize p = winsize p"

definition IndependentSegments :: "MediaPlaylist \<Rightarrow> bool" where
  "IndependentSegments p = independentSegments p"

definition SetIndependentSegments :: "bool \<Rightarrow> MediaPlaylist \<Rightarrow> MediaPlaylist" where
  "SetIndependentSegments b p = p\<lparr>independentSegments := b\<rparr>"

subsection \<open>Setters of the current segment\<close>

text \<open>
  Each setter writes through \<^verbatim>\<open>p.Segments[p.last()]\<close>: the index is checked against the
  slice, and the slot is dereferenced. \<open>set_last f p\<close> is the assignment of one field of
  that segment.
\<close>

definition set_last :: "(MediaSegment \<Rightarrow> MediaSegment) \<Rightarrow> MediaPlaylist \<Rightarrow> panic + MediaPlaylist" where
  "set_last f p =
     (let i = last_idx p in
      if i \<ge> length (Segments p) then Inl IndexOutOfRange
      else case Segments p ! i of
        None \<Rightarrow> Inl NilDereference
      | Some s \<Rightarrow> Inr (p\<lparr>Segments := (Segments p)[i := Some (f s)]\<rparr>))"

definition returning :: "panic + MediaPlaylist \<Rightarrow> result" where
  "returning r = (case r of Inl e \<Rightarrow> Inl e | Inr p \<Rightarrow> Inr (None, p))"

definition SetKey :: "nat \<Rightarrow> string \<Rightarrow> string \<Rightarrow> string \<Rightarrow> string \<Rightarrow> string \<Rightarrow> MediaPlaylist \<Rightarrow> result" where
  "SetKey a method uri iv keyformat keyformatversions p =
     (if count p = 0 then Inr (Some (errors_New ''playlist is empty''), p)
      else
        let p = (if keyformat \<noteq> [] \<or> keyformatversions \<noteq> [] then p\<lparr>ver := version (ver p) 5\<rparr> else p)
        in returning (set_last (\<lambda>s. s\<lparr>MediaSegment.Key := Some (KeyPtr a
              \<lparr>Method = method, Key.URI = uri, IV = iv, Keyformat = keyformat,
               Keyformatversions = keyformatversions\<rparr>)\<rparr>) p))"

definition SetMap :: "string \<Rightarrow> int \<Rightarrow> int \<Rightarrow> MediaPlaylist \<Rightarrow> result" where
  "SetMap uri limit offset p =
     (if count p = 0 then Inr (Some (errors_New ''playlist is empty''), p)
      else
        let p = p\<lparr>ver := version (ver p) 5\<rparr>
        in returning (set_last (\<lambda>s. s\<lparr>MediaSegment.Map :=
              Some \<lparr>Map.URI = uri, Map.Limit = limit, Map.Offset = offset\<rparr>\<rparr>) p))"

definition SetRange :: "int \<Rightarrow> int \<Rightarrow> MediaPlaylist \<Rightarrow> result" where
  "SetRange limit offset p =
     (if count p = 0 then Inr (Some (errors_New ''playlist is empty''), p)
      else
        let p = p\<lparr>ver := version (ver p) 4\<rparr>
        in case set_last (\<lambda>s. s\<lparr>MediaSegment.Limit := limit\<rparr>) p of
             Inl e \<Rightarrow> Inl e
           | Inr p \<Rightarrow> returning (set_last (\<lambda>s. s\<lparr>MediaSegment.Offset := offset\<rparr>) p))"

definition SetSCTE35 :: "SCTE option \<Rightarrow> MediaPlaylist \<Rightarrow> result" where
  "SetSCTE35 scte35 p =
     (if count p = 0 then Inr (Some (errors_New ''playlist is empty''), p)
      else returning (set_last (\<lambda>s. s\<lparr>SCTE := scte35\<rparr>) p))"

text \<open>The struct literal leaves \<^verbatim>\<open>CueType\<close> and \<^verbatim>\<open>Elapsed\<close> at their zero values.\<close>

definition SetSCTE :: "string \<Rightarrow> string \<Rightarrow> float64 \<Rightarrow> MediaPlaylist \<Rightarrow> result" where
  "SetSCTE cue id' time p =
     SetSCTE35 (Some \<lparr>Syntax = SCTE35_67_2014, CueType = SCTE35Cue_Start, Cue = cue, SCTE.ID = id',
                      Time = time, Elapsed = 0\<rparr>) p"

text \<open>The loop of \<^verbatim>\<open>SetDateRange\<close> returns at the first range without an id.\<close>

fun DateRange_ids :: "DateRange list \<Rightarrow> error option" where
  "DateRange_ids [] = None"
| "DateRange_ids (dr # drs) =
     (if DateRange.ID dr = [] then Some (errors_New ''DateRange ID'') else DateRange_ids drs)"

definition SetDateRange :: "DateRange list \<Rightarrow> MediaPlaylist \<Rightarrow> result" where
  "SetDateRange drs p =
     (if count p = 0 then Inr (Some (errors_New ''playlist is empty''), p)
      else case DateRange_ids drs of
        Some err \<Rightarrow> Inr (Some err, p)
      | None \<Rightarrow> returning (set_last (\<lambda>s. s\<lparr>DateRange := drs\<rparr>) p))"

definition AppendDateRange :: "DateRange \<Rightarrow> MediaPlaylist \<Rightarrow> result" where
  "AppendDateRange dr p =
     (if count p = 0 then Inr (Some (errors_New ''playlist is empty''), p)
      else if DateRange.ID dr = [] then Inr (Some (errors_New ''DateRange ID''), p)
      else returning (set_last (\<lambda>s. s\<lparr>DateRange := DateRange s @ [dr]\<rparr>) p))"

definition SetDiscontinuity :: "MediaPlaylist \<Rightarrow> result" where
  "SetDiscontinuity p =
     (if count p = 0 then Inr (Some (errors_New ''playlist is empty''), p)
      else returning (set_last (\<lambda>s. s\<lparr>Discontinuity := True\<rparr>) p))"

definition SetGap :: "MediaPlaylist \<Rightarrow> result" where
  "SetGap p =
     (if count p = 0 then Inr (Some (errors_New ''playlist is empty''), p)
      else returning (set_last (\<lambda>s. s\<lparr>Gap := True\<rparr>) p))"

definition SetProgramDateTime :: "Time \<Rightarrow> MediaPlaylist \<Rightarrow> result" where
  "SetProgramDateTime v p =
     (if count p = 0 then Inr (Some (errors_New ''playlist is empty''), p)
      else returning (set_last (\<lambda>s. s\<lparr>ProgramDateTime := v\<rparr>) p))"

definition SetCustomSegmentTag :: "CustomTag \<Rightarrow> MediaPlaylist \<Rightarrow> result" where
  "SetCustomSegmentTag tag p =
     (if count p = 0 then Inr (Some (errors_New ''playlist is empty''), p)
      else returning (set_last (\<lambda>s. s\<lparr>MediaSegment.Custom :=
              map_set (MediaSegment.Custom s) (TagName tag) tag\<rparr>) p))"

subsection \<open>Formatting\<close>

text \<open>
  \<^verbatim>\<open>strconv.FormatUint(n, 10)\<close> and \<^verbatim>\<open>strconv.FormatInt(i, 10)\<close>: decimal digits, most
  significant first, with a minus sign for a negative number.
\<close>

function FormatUint :: "nat \<Rightarrow> string" where
  "FormatUint n =
     (if n < 10 then [''0123456789'' ! n]
      else FormatUint (n div 10) @ [''0123456789'' ! (n mod 10)])"
  by pat_completeness auto
termination
  by (relation "measure id") auto

declare FormatUint.simps [simp del]

definition FormatInt :: "int \<Rightarrow> string" where
  "FormatInt i = (if i < 0 then ''-'' @ FormatUint (nat (- i)) else FormatUint (nat i))"

definition strver :: "8 word \<Rightarrow> string" where
  "strver v = FormatUint (unat v)"

text \<open>
  The functions of Go's standard library that the encoders call and that this theory does
  not define are parameters: \<^verbatim>\<open>strconv.FormatFloat(x, 'f', prec, bitSize)\<close>,
  \<^verbatim>\<open>t.Format(DATETIME)\<close> with the layout constant of structure.go, and \<^verbatim>\<open>strings.ToLower\<close>.
\<close>

record stdlib =
  FormatFloat :: "float64 \<Rightarrow> int \<Rightarrow> nat \<Rightarrow> string"
  Format_DATETIME :: "Time \<Rightarrow> string"
  ToLower :: "string \<Rightarrow> string"

subsection \<open>The media playlist encoder\<close>

text \<open>The custom tags of a playlist or of a segment, in iteration order; a tag whose \<^verbatim>\<open>Encode()\<close> is nil writes nothing.\<close>

fun Encode_Custom :: "(string \<times> CustomTag) list \<Rightarrow> string" where
  "Encode_Custom [] = []"
| "Encode_Custom ((k, v) # m) =
     (case Encode v of None \<Rightarrow> [] | Some customBuf \<Rightarrow> customBuf @ ''\<newline>'') @ Encode_Custom m"

text \<open>The \<^verbatim>\<open>#EXT-X-KEY\<close> line, written for the default key and for a segment's key.\<close>

definition EXT_X_KEY :: "Key \<Rightarrow> string" where
  \<open>EXT_X_KEY k =
     ''#EXT-X-KEY:'' @ ''METHOD='' @ Method k @
     (if Method k \<noteq> ''NONE''
      then '',URI="'' @ Key.URI k @ ''"'' @
        (if IV k \<noteq> [] then '',IV='' @ IV k else []) @
        (if Keyformat k \<noteq> [] then '',KEYFORMAT="'' @ Keyformat k @ ''"'' else []) @
        (if Keyformatversions k \<noteq> []
         then '',KEYFORMATVERSIONS="'' @ Keyformatversions k @ ''"'' else [])
      else []) @
     ''\<newline>''\<close>

text \<open>The \<^verbatim>\<open>#EXT-X-MAP\<close> line, written for the default map and for a segment's map.\<close>

definition EXT_X_MAP :: "Map \<Rightarrow> string" where
  \<open>EXT_X_MAP m =
     ''#EXT-X-MAP:'' @ ''URI="'' @ Map.URI m @ ''"'' @
     (if Map.Limit m > 0
      then '',BYTERANGE='' @ FormatInt (Map.Limit m) @ ''@'' @ FormatInt (Map.Offset m)
      else []) @
     ''\<newline>''\<close>

definition Encode_WV :: "WV \<Rightarrow> string" where
  "Encode_WV w =
     (if AudioChannels w \<noteq> 0 then ''#WV-AUDIO-CHANNELS '' @ FormatUint (AudioChannels w) @ ''\<newline>'' else []) @
     (if AudioFormat w \<noteq> 0 then ''#WV-AUDIO-FORMAT '' @ FormatUint (AudioFormat w) @ ''\<newline>'' else []) @
     (if AudioProfileIDC w \<noteq> 0 then ''#WV-AUDIO-PROFILE-IDC '' @ FormatUint (AudioProfileIDC w) @ ''\<newline>'' else []) @
     (if AudioSampleSize w \<noteq> 0 then ''#WV-AUDIO-SAMPLE-SIZE '' @ FormatUint (AudioSampleSize w) @ ''\<newline>'' else []) @
     (if AudioSamplingFrequency w \<noteq> 0 then ''#WV-AUDIO-SAMPLING-FREQUENCY '' @ FormatUint (AudioSamplingFrequency w) @ ''\<newline>'' else []) @
     (if CypherVersion w \<noteq> [] then ''#WV-CYPHER-VERSION '' @ CypherVersion w @ ''\<newline>'' else []) @
     (if ECM w \<noteq> [] then ''#WV-ECM '' @ ECM w @ ''\<newline>'' else []) @
     (if VideoFormat w \<noteq> 0 then ''#WV-VIDEO-FORMAT '' @ FormatUint (VideoFormat w) @ ''\<newline>'' else []) @
     (if VideoFrameRate w \<noteq> 0 then ''#WV-VIDEO-FRAME-RATE '' @ FormatUint (VideoFrameRate w) @ ''\<newline>'' else []) @
     (if VideoLevelIDC w \<noteq> 0 then ''#WV-VIDEO-LEVEL-IDC'' @ FormatUint (VideoLevelIDC w) @ ''\<newline>'' else []) @
     (if VideoProfileIDC w \<noteq> 0 then ''#WV-VIDEO-PROFILE-IDC '' @ FormatUint (VideoProfileIDC w) @ ''\<newline>'' else []) @
     (if VideoResolution w \<noteq> [] then ''#WV-VIDEO-RESOLUTION '' @ VideoResolution w @ ''\<newline>'' else []) @
     (if VideoSAR w \<noteq> [] then ''#WV-VIDEO-SAR '' @ VideoSAR w @ ''\<newline>'' else [])"

text \<open>Everything \<^verbatim>\<open>Encode\<close> writes before it walks the segments.\<close>

definition Encode_header :: "stdlib \<Rightarrow> MediaPlaylist \<Rightarrow> string" where
  "Encode_header E p =
     ''#EXTM3U\<newline>#EXT-X-VERSION:'' @ strver (ver p) @ ''\<newline>'' @
     (if IndependentSegments p then ''#EXT-X-INDEPENDENT-SEGMENTS\<newline>'' else []) @
     Encode_Custom (MediaPlaylist.Custom p) @
     (case MediaPlaylist.Key p of None \<Rightarrow> [] | Some k \<Rightarrow> EXT_X_KEY (deref k)) @
     (case MediaPlaylist.Map p of None \<Rightarrow> [] | Some m \<Rightarrow> EXT_X_MAP m) @
     (if MediaType p \<noteq> MediaType_0
      then ''#EXT-X-PLAYLIST-TYPE:'' @
        (case MediaType p of
           EVENT \<Rightarrow> ''EVENT\<newline>'' @ ''#EXT-X-ALLOW-CACHE:NO\<newline>''
         | VOD \<Rightarrow> ''VOD\<newline>''
         | _ \<Rightarrow> [])
      else []) @
     ''#EXT-X-MEDIA-SEQUENCE:'' @ FormatUint (unat (SeqNo p)) @ ''\<newline>'' @
     ''#EXT-X-TARGETDURATION:'' @ FormatInt \<lceil>TargetDuration p\<rceil> @ ''\<newline>'' @
     (if StartTime p > 0
      then ''#EXT-X-START:TIME-OFFSET='' @ FormatFloat E (StartTime p) (- 1) 64 @
        (if StartTimePrecise p then '',PRECISE=YES'' else []) @ ''\<newline>''
      else []) @
     (if DiscontinuitySeq p \<noteq> 0
      then ''#EXT-X-DISCONTINUITY-SEQUENCE:'' @ FormatUint (unat (DiscontinuitySeq p)) @ ''\<newline>''
      else []) @
     (if Iframe p then ''#EXT-X-I-FRAMES-ONLY\<newline>'' else []) @
     (case WV p of None \<Rightarrow> [] | Some w \<Rightarrow> Encode_WV w)"

definition Encode_SCTE :: "stdlib \<Rightarrow> SCTE \<Rightarrow> string" where
  \<open>Encode_SCTE E s =
     (case Syntax s of
        SCTE35_67_2014 \<Rightarrow>
          ''#EXT-SCTE35:'' @ ''CUE="'' @ Cue s @ ''"'' @
          (if SCTE.ID s \<noteq> [] then '',ID="'' @ SCTE.ID s @ ''"'' else []) @
          (if Time s \<noteq> 0 then '',TIME='' @ FormatFloat E (Time s) (- 1) 64 else []) @
          ''\<newline>''
      | SCTE35_OATCLS \<Rightarrow>
          (case CueType s of
             SCTE35Cue_Start \<Rightarrow>
               (if Cue s \<noteq> [] then ''#EXT-OATCLS-SCTE35:'' @ Cue s @ ''\<newline>'' else []) @
               ''#EXT-X-CUE-OUT:'' @ FormatFloat E (Time s) (- 1) 64 @ ''\<newline>''
           | SCTE35Cue_Mid \<Rightarrow>
               ''#EXT-X-CUE-OUT-CONT:'' @ ''ElapsedTime='' @ FormatFloat E (Elapsed s) (- 1) 64 @
               '',Duration='' @ FormatFloat E (Time s) (- 1) 64 @
               '',SCTE35='' @ Cue s @ ''\<newline>''
           | SCTE35Cue_End \<Rightarrow> ''#EXT-X-CUE-IN'' @ ''\<newline>''
           | SCTE35Cue_other \<Rightarrow> [])
      | SCTE35Syntax_other \<Rightarrow> [])\<close>

fun Encode_X :: "(string \<times> string) list \<Rightarrow> string" where
  \<open>Encode_X [] = []\<close>
| \<open>Encode_X ((k, v) # m) = '','' @ k @ ''="'' @ v @ ''"'' @ Encode_X m\<close>

text \<open>
  One \<^verbatim>\<open>#EXT-X-DATERANGE\<close> line. The resume offset and the playout limit are tested, and
  the range's \<^verbatim>\<open>Duration\<close> is what the code prints for both.
\<close>

definition Encode_DateRange :: "stdlib \<Rightarrow> DateRange \<Rightarrow> string" where
  \<open>Encode_DateRange E dr =
     ''#EXT-X-DATERANGE:'' @ ''ID="'' @ DateRange.ID dr @ ''"'' @
     (if Class dr \<noteq> [] then '',CLASS="'' @ Class dr @ ''"'' else []) @
     (if \<not> IsZero (StartDate dr) then '',START-DATE="'' @ Format_DATETIME E (StartDate dr) @ ''"'' else []) @
     (if \<not> IsZero (EndDate dr) then '',END-DATE="'' @ Format_DATETIME E (EndDate dr) @ ''"'' else []) @
     (if DateRange.Duration dr > 0 then '',DURATION='' @ FormatFloat E (DateRange.Duration dr) (- 1) 64 else []) @
     (if PlannedDuration dr > 0 then '',PLANNED-DURATION='' @ FormatFloat E (PlannedDuration dr) (- 1) 64 else []) @
     (if SCTE35Cmd dr \<noteq> [] then '',SCTE35-CMD='' @ SCTE35Cmd dr else []) @
     (if SCTE35In dr \<noteq> [] then '',SCTE35-IN='' @ SCTE35In dr else []) @
     (if SCTE35Out dr \<noteq> [] then '',SCTE35-OUT='' @ SCTE35Out dr else []) @
     (if EndOnNext dr \<noteq> [] then '',END-ON-NEXT="'' @ EndOnNext dr @ ''"'' else []) @
     (if XResumeOfsset dr > 0 then '',X-RESUME-OFFSET='' @ FormatFloat E (DateRange.Duration dr) (- 1) 64 else []) @
     (if XPlayoutLimit dr > 0 then '',X-PLAYOUT-LIMIT='' @ FormatFloat E (DateRange.Duration dr) (- 1) 64 else []) @
     (if XSnap dr \<noteq> [] then '',X-SNAP="'' @ XSnap dr @ ''"'' else []) @
     (if XRestrict dr \<noteq> [] then '',X-RESTRICT="'' @ XRestrict dr @ ''"'' else []) @
     (if XAssetURI dr \<noteq> [] then '',X-ASSET-URI="'' @ XAssetURI dr @ ''"'' else []) @
     (if XAssetList dr \<noteq> [] then '',X-ASSET-LIST="'' @ XAssetList dr @ ''"'' else []) @
     Encode_X (X dr) @
     ''\<newline>''\<close>

text \<open>
  The tags of one segment that come before its \<^verbatim>\<open>#EXTINF\<close> line, in the order the loop
  body writes them: the cue, the key when it changes, the date ranges, the discontinuity
  and gap marks, the map, the date and time, the byte range, the custom tags.
\<close>

definition Encode_segment_tags :: "stdlib \<Rightarrow> MediaPlaylist \<Rightarrow> MediaSegment \<Rightarrow> string" where
  "Encode_segment_tags E p seg =
     (case SCTE seg of None \<Rightarrow> [] | Some s \<Rightarrow> Encode_SCTE E s) @
     (if MediaSegment.Key seg \<noteq> None \<and> \<not> ptr_eq (MediaPlaylist.Key p) (MediaSegment.Key seg)
      then (case MediaSegment.Key seg of None \<Rightarrow> [] | Some k \<Rightarrow> EXT_X_KEY (deref k))
      else []) @
     (if length (DateRange seg) > 0 then concat (map (Encode_DateRange E) (DateRange seg)) else []) @
     (if Discontinuity seg then ''#EXT-X-DISCONTINUITY\<newline>'' else []) @
     (if Gap seg then ''#EXT-X-GAP\<newline>'' else []) @
     (if MediaPlaylist.Map p = None \<and> MediaSegment.Map seg \<noteq> None
      then (case MediaSegment.Map seg of None \<Rightarrow> [] | Some m \<Rightarrow> EXT_X_MAP m)
      else []) @
     (if \<not> IsZero (ProgramDateTime seg)
      then ''#EXT-X-PROGRAM-DATE-TIME:'' @ Format_DATETIME E (ProgramDateTime seg) @ ''\<newline>''
      else []) @
     (if MediaSegment.Limit seg > 0
      then ''#EXT-X-BYTERANGE:'' @ FormatInt (MediaSegment.Limit seg) @ ''@'' @
           FormatInt (MediaSegment.Offset seg) @ ''\<newline>''
      else []) @
     Encode_Custom (MediaSegment.Custom seg)"

text \<open>
  The \<^verbatim>\<open>#EXTINF\<close> line and the URI line of one segment. \<open>durationCache\<close> is the map of
  the durations formatted so far in this call; the function returns what it writes and
  the cache after it.
\<close>

definition Encode_EXTINF :: "stdlib \<Rightarrow> MediaPlaylist \<Rightarrow> (float64 \<rightharpoonup> string) \<Rightarrow> MediaSegment \<Rightarrow> string \<times> (float64 \<rightharpoonup> string)" where
  "Encode_EXTINF E p durationCache seg =
     (let (str, durationCache) =
            (case durationCache (MediaSegment.Duration seg) of
               Some str \<Rightarrow> (str, durationCache)
             | None \<Rightarrow>
                 (let str = (if durationAsInt p
                             then FormatInt \<lceil>MediaSegment.Duration seg\<rceil>
                             else FormatFloat E (MediaSegment.Duration seg) 3 32)
                  in (str, durationCache(MediaSegment.Duration seg \<mapsto> str))))
      in (''#EXTINF:'' @ str @ '','' @ Title seg @ ''\<newline>'' @
          MediaSegment.URI seg @ (if Args p \<noteq> [] then ''?'' @ Args p else []) @ ''\<newline>'',
          durationCache))"

text \<open>
  The loop over the segments: \<open>c\<close> is the loop's \<^verbatim>\<open>count\<close>, \<open>h\<close> its \<^verbatim>\<open>head\<close>, \<open>i\<close>
  the number of segments written when the window is bounded, \<open>b\<close> the buffer so far.
  \<^verbatim>\<open>p.Segments[head]\<close> is an indexing that panics out of range, and \<^verbatim>\<open>% p.capacity\<close>
  panics on a zero capacity.
\<close>

function Encode_loop :: "stdlib \<Rightarrow> MediaPlaylist \<Rightarrow> nat \<Rightarrow> nat \<Rightarrow> nat \<Rightarrow> (float64 \<rightharpoonup> string) \<Rightarrow> string \<Rightarrow> panic + string" where
  "Encode_loop E p c h i durationCache b =
     (if (i < winsize p \<or> winsize p = 0) \<and> c > 0
      then
        (if h \<ge> length (Segments p) then Inl IndexOutOfRange
         else if capacity p = 0 then Inl DivideByZero
         else case Segments p ! h of
           None \<Rightarrow> Encode_loop E p (c - 1) ((h + 1) mod capacity p) i durationCache b
         | Some seg \<Rightarrow>
             (let i = (if winsize p > 0 then i + 1 else i);
                  b = b @ Encode_segment_tags E p seg;
                  (line, durationCache) = Encode_EXTINF E p durationCache seg
              in Encode_loop E p (c - 1) ((h + 1) mod capacity p) i durationCache (b @ line)))
      else Inr b)"
  by pat_completeness auto
termination
  by (relation "measure (\<lambda>(E, p, c, h, i, durationCache, b). c)") auto

declare Encode_loop.simps [simp del]

text \<open>
  \<^verbatim>\<open>Encode\<close> returns the address of the playlist's own buffer: the result is the playlist
  after the call, whose \<open>buf\<close> is that buffer. A filled cache is returned as it is.
\<close>

definition Encode_MediaPlaylist :: "stdlib \<Rightarrow> MediaPlaylist \<Rightarrow> panic + MediaPlaylist" where
  "Encode_MediaPlaylist E p =
     (if length (buf p) > 0 then Inr p
      else
        case Encode_loop E p (count p) (head p) 0 Map.empty (buf p @ Encode_header E p) of
          Inl e \<Rightarrow> Inl e
        | Inr b \<Rightarrow> Inr (p\<lparr>buf := b @ (if Closed p then ''#EXT-X-ENDLIST\<newline>'' else [])\<rparr>))"

definition String_MediaPlaylist :: "stdlib \<Rightarrow> MediaPlaylist \<Rightarrow> panic + string" where
  "String_MediaPlaylist E p =
     (case Encode_MediaPlaylist E p of Inl e \<Rightarrow> Inl e | Inr p' \<Rightarrow> Inr (buf p'))"

subsection \<open>The master playlist\<close>

text \<open>
  The lists of a master playlist hold pointers; a nil element makes the encoder panic
  at its first field access, and the lists modelled here hold objects. \<^verbatim>\<open>Variant\<close>
  embeds \<^verbatim>\<open>VariantParams\<close>. The chunklist of a variant is carried along and never encoded.
\<close>

record Alternative =
  GroupId :: string
  URI :: string
  Language :: string
  Name :: string
  Default :: bool
  Autoselect :: string
  Forced :: string
  Characteristics :: string
  Subtitles :: string
  Type :: string
  InstreamId :: string
  Channels :: string

record VariantParams =
  ProgramId :: "32 word"
  Bandwidth :: "32 word"
  AverageBandwidth :: "32 word"
  Codecs :: string
  Resolution :: string
  Audio :: string
  Video :: string
  Subtitles :: string
  Captions :: string
  Name :: string
  Iframe :: bool
  VideoRange :: string
  HDCPLevel :: string
  FrameRate :: float64
  Alternatives :: "Alternative list"

record Variant =
  URI :: string
  Chunklist :: "MediaPlaylist option"
  VariantParams :: VariantParams

record SessionData =
  DataID :: string
  Value :: string
  URI :: string
  Language :: string

record MasterPlaylist =
  Variants :: "Variant list"
  Args :: string
  buf :: string
  ver :: "8 word"
  independentSegments :: bool
  Custom :: "(string \<times> CustomTag) list"
  SessionData :: "SessionData list"

definition NewMasterPlaylist :: "8 word \<Rightarrow> MasterPlaylist" where
  "NewMasterPlaylist minver =
     \<lparr>Variants = [], Args = [], buf = [], ver = minver, independentSegments = False,
      Custom = [], SessionData = []\<rparr>"

definition Master_Append :: "string \<Rightarrow> MediaPlaylist option \<Rightarrow> VariantParams \<Rightarrow> MasterPlaylist \<Rightarrow> MasterPlaylist" where
  "Master_Append uri chunklist params p =
     (let v = \<lparr>Variant.URI = uri, Chunklist = chunklist, VariantParams = params\<rparr>;
          p = p\<lparr>Variants := Variants p @ [v]\<rparr>;
          p = (if length (Alternatives (VariantParams v)) > 0
               then p\<lparr>MasterPlaylist.ver := version (MasterPlaylist.ver p) 4\<rparr> else p)
      in p\<lparr>MasterPlaylist.buf := []\<rparr>)"

definition Master_ResetCache :: "MasterPlaylist \<Rightarrow> MasterPlaylist" where
  "Master_ResetCache p = p\<lparr>MasterPlaylist.buf := []\<rparr>"

definition Master_SetCustomTag :: "CustomTag \<Rightarrow> MasterPlaylist \<Rightarrow> MasterPlaylist" where
  "Master_SetCustomTag tag p =
     p\<lparr>MasterPlaylist.Custom := map_set (MasterPlaylist.Custom p) (TagName tag) tag\<rparr>"

definition Master_SetVersion :: "8 word \<Rightarrow> MasterPlaylist \<Rightarrow> MasterPlaylist" where
  "Master_SetVersion v p = p\<lparr>MasterPlaylist.ver := v\<rparr>"

definition Master_SetIndependentSegments :: "bool \<Rightarrow> MasterPlaylist \<Rightarrow> MasterPlaylist" where
  "Master_SetIndependentSegments b p = p\<lparr>MasterPlaylist.independentSegments := b\<rparr>"

definition EXT_X_SESSION_DATA :: "SessionData \<Rightarrow> string" where
  \<open>EXT_X_SESSION_DATA sessionData =
     ''#EXT-X-SESSION-DATA:'' @ ''DATA-ID="'' @ DataID sessionData @ ''"'' @
     (if Value sessionData \<noteq> [] then '',VALUE="'' @ Value sessionData @ ''"'' else []) @
     (if SessionData.URI sessionData \<noteq> [] \<and> Value sessionData = []
      then '',URI="'' @ SessionData.URI sessionData @ ''"'' else []) @
     (if SessionData.Language sessionData \<noteq> []
      then '',LANGUAGE="'' @ SessionData.Language sessionData @ ''"'' else []) @
     ''\<newline>''\<close>

text \<open>
  The loop over the session data; \<open>languageWritten\<close> lists the keys that the map of
  the same name holds.
\<close>

fun Encode_SessionData :: "stdlib \<Rightarrow> SessionData list \<Rightarrow> string list \<Rightarrow> string" where
  "Encode_SessionData E [] languageWritten = []"
| "Encode_SessionData E (sessionData # rest) languageWritten =
     (if SessionData.Language sessionData \<noteq> []
      then
        (let languageWrittenKey =
               ToLower E (DataID sessionData) @ ''-'' @ ToLower E (SessionData.Language sessionData)
         in if languageWrittenKey \<in> set languageWritten
            then Encode_SessionData E rest languageWritten
            else EXT_X_SESSION_DATA sessionData @
                 Encode_SessionData E rest (languageWrittenKey # languageWritten))
      else EXT_X_SESSION_DATA sessionData @ Encode_SessionData E rest languageWritten)"

definition EXT_X_MEDIA :: "Alternative \<Rightarrow> string" where
  \<open>EXT_X_MEDIA alt =
     ''#EXT-X-MEDIA:'' @
     (if Type alt \<noteq> [] then ''TYPE='' @ Type alt else []) @
     (if GroupId alt \<noteq> [] then '',GROUP-ID="'' @ GroupId alt @ ''"'' else []) @
     (if Alternative.Name alt \<noteq> [] then '',NAME="'' @ Alternative.Name alt @ ''"'' else []) @
     '',DEFAULT='' @ (if Default alt then ''YES'' else ''NO'') @
     (if Autoselect alt \<noteq> [] then '',AUTOSELECT='' @ Autoselect alt else []) @
     (if Alternative.Language alt \<noteq> [] then '',LANGUAGE="'' @ Alternative.Language alt @ ''"'' else []) @
     (if Forced alt \<noteq> [] then '',FORCED='' @ Forced alt else []) @
     (if Characteristics alt \<noteq> [] then '',CHARACTERISTICS="'' @ Characteristics alt @ ''"'' else []) @
     (if Alternative.Subtitles alt \<noteq> [] then '',SUBTITLES="'' @ Alternative.Subtitles alt @ ''"'' else []) @
     (if Alternative.URI alt \<noteq> [] then '',URI="'' @ Alternative.URI alt @ ''"'' else []) @
     (if InstreamId alt \<noteq> [] then '',INSTREAM-ID="'' @ InstreamId alt @ ''"'' else []) @
     (if Channels alt \<noteq> [] then '',CHANNELS="'' @ Channels alt @ ''"'' else []) @
     ''\<newline>''\<close>

text \<open>The loop over the alternatives of one variant; it returns what it writes and the keys written so far.\<close>

fun Encode_Alternatives :: "Alternative list \<Rightarrow> string list \<Rightarrow> string \<times> string list" where
  "Encode_Alternatives [] altsWritten = ([], altsWritten)"
| "Encode_Alternatives (alt # rest) altsWritten =
     (let altKey = Type alt @ ''-'' @ GroupId alt @ ''-'' @ Alternative.Name alt @ ''-'' @
                   Alternative.Language alt
      in if altKey \<in> set altsWritten then Encode_Alternatives rest altsWritten
         else (let (out, altsWritten) = Encode_Alternatives rest (altKey # altsWritten)
               in (EXT_X_MEDIA alt @ out, altsWritten)))"

definition EXT_X_I_FRAME_STREAM_INF :: "Variant \<Rightarrow> string" where
  \<open>EXT_X_I_FRAME_STREAM_INF pl =
     (let vp = VariantParams pl in
      ''#EXT-X-I-FRAME-STREAM-INF:PROGRAM-ID='' @ FormatUint (unat (ProgramId vp)) @
      '',BANDWIDTH='' @ FormatUint (unat (Bandwidth vp)) @
      (if AverageBandwidth vp \<noteq> 0 then '',AVERAGE-BANDWIDTH='' @ FormatUint (unat (AverageBandwidth vp)) else []) @
      (if Codecs vp \<noteq> [] then '',CODECS="'' @ Codecs vp @ ''"'' else []) @
      (if Resolution vp \<noteq> [] then '',RESOLUTION='' @ Resolution vp else []) @
      (if Video vp \<noteq> [] then '',VIDEO="'' @ Video vp @ ''"'' else []) @
      (if VideoRange vp \<noteq> [] then '',VIDEO-RANGE='' @ VideoRange vp else []) @
      (if HDCPLevel vp \<noteq> [] then '',HDCP-LEVEL='' @ HDCPLevel vp else []) @
      (if Variant.URI pl \<noteq> [] then '',URI="'' @ Variant.URI pl @ ''"'' else []) @
      ''\<newline>'')\<close>

definition EXT_X_STREAM_INF :: "stdlib \<Rightarrow> MasterPlaylist \<Rightarrow> Variant \<Rightarrow> string" where
  \<open>EXT_X_STREAM_INF E p pl =
     (let vp = VariantParams pl in
      ''#EXT-X-STREAM-INF:PROGRAM-ID='' @ FormatUint (unat (ProgramId vp)) @
      '',BANDWIDTH='' @ FormatUint (unat (Bandwidth vp)) @
      (if AverageBandwidth vp \<noteq> 0 then '',AVERAGE-BANDWIDTH='' @ FormatUint (unat (AverageBandwidth vp)) else []) @
      (if Codecs vp \<noteq> [] then '',CODECS="'' @ Codecs vp @ ''"'' else []) @
      (if Resolution vp \<noteq> [] then '',RESOLUTION='' @ Resolution vp else []) @
      (if Audio vp \<noteq> [] then '',AUDIO="'' @ Audio vp @ ''"'' else []) @
      (if Video vp \<noteq> [] then '',VIDEO="'' @ Video vp @ ''"'' else []) @
      (if Captions vp \<noteq> []
       then '',CLOSED-CAPTIONS='' @
         (if Captions vp = ''NONE'' then Captions vp else ''"'' @ Captions vp @ ''"'')
       else []) @
      (if VariantParams.Subtitles vp \<noteq> [] then '',SUBTITLES="'' @ VariantParams.Subtitles vp @ ''"'' else []) @
      (if VariantParams.Name vp \<noteq> [] then '',NAME="'' @ VariantParams.Name vp @ ''"'' else []) @
      (if FrameRate vp \<noteq> 0 then '',FRAME-RATE='' @ FormatFloat E (FrameRate vp) 3 64 else []) @
      (if VideoRange vp \<noteq> [] then '',VIDEO-RANGE='' @ VideoRange vp else []) @
      (if HDCPLevel vp \<noteq> [] then '',HDCP-LEVEL='' @ HDCPLevel vp else []) @
      ''\<newline>'' @
      Variant.URI pl @
      (if MasterPlaylist.Args p \<noteq> []
       then (if CHR ''?'' \<in> set (Variant.URI pl) then ''&'' else ''?'') @ MasterPlaylist.Args p
       else []) @
      ''\<newline>'')\<close>

text \<open>The loop over the variants; \<open>altsWritten\<close> is shared by all of them.\<close>

fun Encode_Variants :: "stdlib \<Rightarrow> MasterPlaylist \<Rightarrow> Variant list \<Rightarrow> string list \<Rightarrow> string" where
  "Encode_Variants E p [] altsWritten = []"
| "Encode_Variants E p (pl # rest) altsWritten =
     (let (alts, altsWritten) = Encode_Alternatives (Alternatives (VariantParams pl)) altsWritten
      in alts @
         (if VariantParams.Iframe (VariantParams pl)
          then EXT_X_I_FRAME_STREAM_INF pl
          else EXT_X_STREAM_INF E p pl) @
         Encode_Variants E p rest altsWritten)"

definition Encode_MasterPlaylist :: "stdlib \<Rightarrow> MasterPlaylist \<Rightarrow> MasterPlaylist" where
  "Encode_MasterPlaylist E p =
     (if length (MasterPlaylist.buf p) > 0 then p
      else p\<lparr>MasterPlaylist.buf :=
        MasterPlaylist.buf p @
        ''#EXTM3U\<newline>#EXT-X-VERSION:'' @ strver (MasterPlaylist.ver p) @ ''\<newline>'' @
        (if MasterPlaylist.independentSegments p then ''#EXT-X-INDEPENDENT-SEGMENTS\<newline>'' else []) @
        Encode_Custom (MasterPlaylist.Custom p) @
        Encode_SessionData E (SessionData p) [] @
        Encode_Variants E p (Variants p) []\<rparr>)"

subsection \<open>Calls and runs\<close>

text \<open>
  The methods of a media playlist as values, so that a statement can range over all of
  them and over sequences of them. \<open>do_call\<close> gives every call the result shape of a
  method that returns an error; a method without an error result returns \<open>None\<close>.
\<close>

datatype call =
    Call_Append string float64 string
  | Call_AppendSegment MediaSegment
  | Call_InsertSegments "MediaSegment option list" "64 word"
  | Call_SetMediaSegments "MediaSegment option list" "MediaSegment option list"
  | Call_Remove
  | Call_Slide string float64 string
  | Call_SetKey nat string string string string string
  | Call_SetMap string int int
  | Call_SetRange int int
  | Call_SetSCTE string string float64
  | Call_SetSCTE35 "SCTE option"
  | Call_SetDateRange "DateRange list"
  | Call_AppendDateRange DateRange
  | Call_SetDiscontinuity
  | Call_SetGap
  | Call_SetProgramDateTime Time
  | Call_SetCustomSegmentTag CustomTag
  | Call_SetWinSize nat
  | Call_SetDefaultKey nat string string string string string
  | Call_SetDefaultMap string int int
  | Call_SetIframeOnly
  | Call_SetCustomTag CustomTag
  | Call_SetVersion "8 word"
  | Call_SetIndependentSegments bool
  | Call_DurationAsInt bool
  | Call_Close
  | Call_ResetCache
  | Call_Encode stdlib

fun do_call :: "call \<Rightarrow> MediaPlaylist \<Rightarrow> result" where
  "do_call (Call_Append uri duration title) p = Append uri duration title p"
| "do_call (Call_AppendSegment seg) p = AppendSegment seg p"
| "do_call (Call_InsertSegments segments seqID) p = InsertSegments segments seqID p"
| "do_call (Call_SetMediaSegments segments segments_spare) p =
     Inr (None, SetMediaSegments segments segments_spare p)"
| "do_call Call_Remove p = Remove p"
| "do_call (Call_Slide uri duration title) p = returning (Slide uri duration title p)"
| "do_call (Call_SetKey a method uri iv keyformat keyformatversions) p =
     SetKey a method uri iv keyformat keyformatversions p"
| "do_call (Call_SetMap uri limit offset) p = SetMap uri limit offset p"
| "do_call (Call_SetRange limit offset) p = SetRange limit offset p"
| "do_call (Call_SetSCTE cue id' time) p = SetSCTE cue id' time p"
| "do_call (Call_SetSCTE35 scte35) p = SetSCTE35 scte35 p"
| "do_call (Call_SetDateRange drs) p = SetDateRange drs p"
| "do_call (Call_AppendDateRange dr) p = AppendDateRange dr p"
| "do_call Call_SetDiscontinuity p = SetDiscontinuity p"
| "do_call Call_SetGap p = SetGap p"
| "do_call (Call_SetProgramDateTime v) p = SetProgramDateTime v p"
| "do_call (Call_SetCustomSegmentTag tag) p = SetCustomSegmentTag tag p"
| "do_call (Call_SetWinSize w) p = Inr (SetWinSize w p)"
| "do_call (Call_SetDefaultKey a method uri iv keyformat keyformatversions) p =
     Inr (SetDefaultKey a method uri iv keyformat keyformatversions p)"
| "do_call (Call_SetDefaultMap uri limit offset) p = Inr (None, SetDefaultMap uri limit offset p)"
| "do_call Call_SetIframeOnly p = Inr (None, SetIframeOnly p)"
| "do_call (Call_SetCustomTag tag) p = Inr (None, SetCustomTag tag p)"
| "do_call (Call_SetVersion v) p = Inr (None, SetVersion v p)"
| "do_call (Call_SetIndependentSegments b) p = Inr (None, SetIndependentSegments b p)"
| "do_call (Call_DurationAsInt yes) p = Inr (None, DurationAsInt yes p)"
| "do_call Call_Close p = Inr (None, Close p)"
| "do_call Call_ResetCache p = Inr (None, ResetCache p)"
| "do_call (Call_Encode E) p = returning (Encode_MediaPlaylist E p)"

text \<open>
  A run makes the calls in order on the playlist each one leaves, as a caller does that
  goes on after an error; it returns the error of every call and the last playlist. A
  panic ends the run.
\<close>

fun run :: "call list \<Rightarrow> MediaPlaylist \<Rightarrow> panic + (error option list \<times> MediaPlaylist)" where
  "run [] p = Inr ([], p)"
| "run (c # cs) p =
     (case do_call c p of
        Inl e \<Rightarrow> Inl e
      | Inr (err, p') \<Rightarrow>
          (case run cs p' of
             Inl e \<Rightarrow> Inl e
           | Inr (errs, p'') \<Rightarrow> Inr (err # errs, p'')))"

text \<open>A run on a new playlist; \<open>None\<close> when the constructor fails or a call panics.\<close>

definition script :: "8 word \<Rightarrow> nat \<Rightarrow> nat \<Rightarrow> call list \<Rightarrow> (error option list \<times> MediaPlaylist) option" where
  "script minver w c cs =
     (case NewMediaPlaylist minver w c of
        Inl err \<Rightarrow> None
      | Inr p \<Rightarrow> (case run cs p of Inl e \<Rightarrow> None | Inr r \<Rightarrow> Some r))"

text \<open>The calls that the claims sort into those that empty the cache and the setters of the current segment.\<close>

fun resets_cache :: "call \<Rightarrow> bool" where
  "resets_cache (Call_Append uri duration title) = True"
| "resets_cache (Call_AppendSegment seg) = True"
| "resets_cache (Call_InsertSegments segments seqID) = True"
| "resets_cache (Call_SetMediaSegments segments segments_spare) = True"
| "resets_cache Call_Remove = True"
| "resets_cache Call_ResetCache = True"
| "resets_cache _ = False"

fun segment_setter :: "call \<Rightarrow> bool" where
  "segment_setter (Call_SetKey a method uri iv keyformat keyformatversions) = True"
| "segment_setter (Call_SetMap uri limit offset) = True"
| "segment_setter (Call_SetRange limit offset) = True"
| "segment_setter (Call_SetSCTE cue id' time) = True"
| "segment_setter (Call_SetSCTE35 scte35) = True"
| "segment_setter (Call_SetDateRange drs) = True"
| "segment_setter (Call_AppendDateRange dr) = True"
| "segment_setter Call_SetDiscontinuity = True"
| "segment_setter Call_SetGap = True"
| "segment_setter (Call_SetProgramDateTime v) = True"
| "segment_setter (Call_SetCustomSegmentTag tag) = True"
| "segment_setter _ = False"

subsection \<open>A library instance for the examples\<close>

text \<open>
  The examples of this theory run the encoder on durations 4, 5 and 6, which
  \<^verbatim>\<open>strconv.FormatFloat(x, 'f', 3, 32)\<close> renders in fixed point with three decimals.
  \<open>FormatFixed\<close> renders a rational in fixed point, rounded to the nearest with ties to
  even. The examples reach neither the layout of dates nor the lower-casing of strings,
  and format no float at precision -1.
\<close>

definition pad_left :: "nat \<Rightarrow> string \<Rightarrow> string" where
  "pad_left n s = replicate (n - length s) (CHR ''0'') @ s"

definition FormatFixed :: "rat \<Rightarrow> nat \<Rightarrow> string" where
  "FormatFixed x prec =
     (let r = \<bar>x\<bar> * 10 ^ prec;
          f = nat \<lfloor>r\<rfloor>;
          n = (if r - of_nat f < 1 / 2 then f
               else if r - of_nat f > 1 / 2 then f + 1
               else if even f then f else f + 1)
      in (if x < 0 then ''-'' else []) @ FormatUint (n div 10 ^ prec) @
         (if prec > 0 then ''.'' @ pad_left prec (FormatUint (n mod 10 ^ prec)) else []))"

definition example_stdlib :: stdlib where
  "example_stdlib =
     \<lparr>FormatFloat = (\<lambda>x prec bitSize. FormatFixed x (nat prec)),
      Format_DATETIME = (\<lambda>t. []),
      ToLower = (\<lambda>s. s)\<rparr>"

subsection \<open>Example playlists\<close>

text \<open>
  A playlist built by a run on a new playlist of version 3, the value of \<^verbatim>\<open>minver\<close> that the
  examples take.
\<close>

definition built :: "nat \<Rightarrow> nat \<Rightarrow> call list \<Rightarrow> MediaPlaylist" where
  "built w c cs = (case script 3 w c cs of Some (errs, p) \<Rightarrow> p | None \<Rightarrow> new_MediaPlaylist)"

text \<open>Capacity 3, window 2, and the segments A (4 s), B (6 s) and C (5 s) appended in this order.\<close>

definition example_ABC :: MediaPlaylist where
  "example_ABC = built 2 3 [Call_Append ''A'' 4 [], Call_Append ''B'' 6 [], Call_Append ''C'' 5 []]"

text \<open>The same playlist after \<^verbatim>\<open>Encode\<close> has filled its cache.\<close>

definition example_ABC_encoded :: MediaPlaylist where
  "example_ABC_encoded =
     (case Encode_MediaPlaylist example_stdlib example_ABC of Inr p \<Rightarrow> p | Inl e \<Rightarrow> example_ABC)"

text \<open>Capacity 3, window 2, and only A and B appended: the segment written last is inside the window.\<close>

definition example_AB :: MediaPlaylist where
  "example_AB = built 2 3 [Call_Append ''A'' 4 [], Call_Append ''B'' 6 []]"

definition example_AB_encoded :: MediaPlaylist where
  "example_AB_encoded =
     (case Encode_MediaPlaylist example_stdlib example_AB of Inr p \<Rightarrow> p | Inl e \<Rightarrow> example_AB)"

text \<open>The example playlist after one and after two calls of \<^verbatim>\<open>Remove\<close>, and two segments for a new list.\<close>

definition example_removed1 :: MediaPlaylist where
  "example_removed1 = built 2 3 [Call_Append ''A'' 4 [], Call_Append ''B'' 6 [], Call_Append ''C'' 5 [], Call_Remove]"

definition example_removed2 :: MediaPlaylist where
  "example_removed2 = built 2 3 [Call_Append ''A'' 4 [], Call_Append ''B'' 6 [], Call_Append ''C'' 5 [], Call_Remove, Call_Remove]"

definition segment_X :: MediaSegment where
  "segment_X = new_MediaSegment\<lparr>MediaSegment.URI := ''X'', MediaSegment.Duration := 4\<rparr>"

definition segment_Y :: MediaSegment where
  "segment_Y = new_MediaSegment\<lparr>MediaSegment.URI := ''Y'', MediaSegment.Duration := 5\<rparr>"

text \<open>
  A default key and, on the one segment, a key built from the same five strings: two
  objects, at the addresses 1 and 2. In the second playlist the segment holds the reference
  of the default key itself.
\<close>

definition example_keys :: MediaPlaylist where
  "example_keys = built 2 3
     [Call_SetDefaultKey 1 ''AES-128'' ''k.bin'' [] [] [],
      Call_Append ''A'' 4 [],
      Call_SetKey 2 ''AES-128'' ''k.bin'' [] [] []]"

definition example_key_shared :: MediaPlaylist where
  "example_key_shared =
     example_keys\<lparr>Segments :=
       map (map_option (\<lambda>s. s\<lparr>MediaSegment.Key := MediaPlaylist.Key example_keys\<rparr>)) (Segments example_keys)\<rparr>"

definition example_key :: Key where
  "example_key = \<lparr>Method = ''AES-128'', URI = ''k.bin'', IV = [], Keyformat = [], Keyformatversions = []\<rparr>"

text \<open>A whole number of seconds, and the two ways an append leaves the target duration.\<close>

definition whole :: "float64 \<Rightarrow> bool" where
  "whole x = (x = of_int \<lceil>x\<rceil>)"

definition grows :: "float64 \<Rightarrow> float64 \<Rightarrow> bool" where
  "grows t t' = (t' = t \<or> (\<exists>d. t < d \<and> t' = of_int \<lceil>d\<rceil>))"



definition segment_C :: MediaSegment where
  "segment_C = new_MediaSegment\<lparr>MediaSegment.URI := ''C'', MediaSegment.Duration := 5\<rparr>"

definition example_new :: MediaPlaylist where
  "example_new = built 2 3 []"

section \<open>Properties\<close>

subsection \<open>Evaluation of the examples\<close>

lemma FormatUint_digits:
  "FormatUint 0 = ''0''" "FormatUint 1 = ''1''" "FormatUint 2 = ''2''" "FormatUint 3 = ''3''"
  "FormatUint 4 = ''4''" "FormatUint 5 = ''5''" "FormatUint 6 = ''6''"
  by (simp_all add: FormatUint.simps)

lemma replicate_2: "replicate 2 x = [x, x]"
  by (simp add: numeral_2_eq_2)

lemma FormatFixed_456:
  "FormatFixed 4 3 = ''4.000''" "FormatFixed 6 3 = ''6.000''" "FormatFixed 5 3 = ''5.000''"
  by (simp_all add: FormatFixed_def FormatUint_digits pad_left_def Let_def replicate_2)

lemma example_ABC_value:
  "example_ABC =
     \<lparr>TargetDuration = 6, SeqNo = 0,
      Segments =
        [Some \<lparr>SeqId = 0, Title = [], URI = ''A'', Duration = 4, Limit = 0, Offset = 0, Key = None,
               Map = None, Discontinuity = False, Gap = False, SCTE = None, ProgramDateTime = 0,
               DateRange = [], Custom = []\<rparr>,
         Some \<lparr>SeqId = 1, Title = [], URI = ''B'', Duration = 6, Limit = 0, Offset = 0, Key = None,
               Map = None, Discontinuity = False, Gap = False, SCTE = None, ProgramDateTime = 0,
               DateRange = [], Custom = []\<rparr>,
         Some \<lparr>SeqId = 2, Title = [], URI = ''C'', Duration = 5, Limit = 0, Offset = 0, Key = None,
               Map = None, Discontinuity = False, Gap = False, SCTE = None, ProgramDateTime = 0,
               DateRange = [], Custom = []\<rparr>],
      spare = [], Args = [], Iframe = False, Closed = False, MediaType = MediaType_0,
      DiscontinuitySeq = 0, StartTime = 0, StartTimePrecise = False, durationAsInt = False,
      winsize = 2, capacity = 3, head = 0, tail = 0, count = 3, buf = [], ver = 3, Key = None,
      Map = None, WV = None, Custom = [], independentSegments = False\<rparr>"
  by code_simp

lemmas Encode_eval =
  Encode_MediaPlaylist_def Encode_header_def strver_def IndependentSegments_def FormatInt_def
  FormatUint_digits Encode_loop.simps Encode_segment_tags_def Encode_EXTINF_def IsZero_def
  example_stdlib_def FormatFixed_456 Let_def

lemma example_ABC_encoded_value:
  "example_ABC_encoded = example_ABC\<lparr>MediaPlaylist.buf :=
     ''#EXTM3U\<newline>#EXT-X-VERSION:3\<newline>#EXT-X-MEDIA-SEQUENCE:0\<newline>#EXT-X-TARGETDURATION:6\<newline>#EXTINF:4.000,\<newline>A\<newline>#EXTINF:6.000,\<newline>B\<newline>''\<rparr>"
  by (simp add: example_ABC_encoded_def example_ABC_value Encode_eval)

subsection \<open>Errors leave the playlist as it was\<close>

lemma returning_no_error: "returning r \<noteq> Inr (Some e, p')"
  by (cases r) (auto simp: returning_def)

text \<open>
  C5: a call of any method of a media playlist that returns an error (playlist is full,
  playlist is empty, the window exceeds the capacity, a date range has no id) leaves the
  playlist exactly as it was before the call, its cached buffer included.
\<close>

theorem error_leaves_playlist_unchanged:
  "do_call c p = Inr (Some e, p') \<Longrightarrow> p' = p \<and> MediaPlaylist.buf p' = MediaPlaylist.buf p"
  by (cases c)
     (auto simp: Append_def AppendSegment_def InsertSegments_def Remove_def SetKey_def SetMap_def
        SetRange_def SetSCTE_def SetSCTE35_def SetDateRange_def AppendDateRange_def
        SetDiscontinuity_def SetGap_def SetProgramDateTime_def SetCustomSegmentTag_def
        SetWinSize_def SetDefaultKey_def Let_def returning_no_error
        split: if_splits sum.splits option.splits prod.splits)

text \<open>
  An append to the full playlist of the example, whose cache is filled, returns the full
  error and the playlist with its cache as before.
\<close>

theorem error_leaves_playlist_unchanged_witness:
  "\<exists>p'. do_call (Call_Append ''D'' 7 []) example_ABC_encoded = Inr (Some ErrPlaylistFull, p') \<and>
     p' = example_ABC_encoded \<and> MediaPlaylist.buf p' \<noteq> []"
proof -
  have full: "do_call (Call_Append ''D'' 7 []) example_ABC_encoded =
      Inr (Some ErrPlaylistFull, example_ABC_encoded)"
    by (simp add: example_ABC_encoded_value example_ABC_value Append_def AppendSegment_def)
  have "MediaPlaylist.buf example_ABC_encoded \<noteq> []"
    by (simp add: example_ABC_encoded_value)
  with error_leaves_playlist_unchanged [OF full] full show ?thesis
    by simp
qed

subsection \<open>Remove\<close>

text \<open>
  C7: \<^verbatim>\<open>Remove\<close> on a playlist with no live segment returns an error with the message
  of the empty-playlist error and leaves the playlist alone. A \<^verbatim>\<open>Remove\<close> that succeeds
  moves the head by one modulo the capacity, takes one from the count, and adds one to the
  media sequence number when the playlist is not closed and leaves it when it is closed.
  With a live segment and a capacity above zero it succeeds.
\<close>

theorem Remove_spec:
  "(count p = 0 \<longrightarrow> (\<exists>e. Remove p = Inr (Some e, p) \<and> Error e = Error ErrPlaylistEmpty)) \<and>
   (count p > 0 \<and> capacity p > 0 \<longrightarrow> (\<exists>p'. Remove p = Inr (None, p'))) \<and>
   (\<forall>p'. Remove p = Inr (None, p') \<longrightarrow>
      head p' = (head p + 1) mod capacity p \<and> count p > 0 \<and> count p' = count p - 1 \<and>
      (\<not> Closed p \<longrightarrow> SeqNo p' = SeqNo p + 1) \<and> (Closed p \<longrightarrow> SeqNo p' = SeqNo p))"
  by (auto simp: Remove_def ResetCache_def Let_def split: if_splits)

theorem Remove_spec_witness:
  "(\<exists>p'. Remove example_ABC = Inr (None, p') \<and> head p' = 1 \<and> count p' = 2 \<and> SeqNo p' = 1) \<and>
   (\<exists>p'. Remove (Close example_ABC) = Inr (None, p') \<and> head p' = 1 \<and> count p' = 2 \<and> SeqNo p' = 0) \<and>
   (\<exists>e. Remove (built 2 3 []) = Inr (Some e, built 2 3 []) \<and> Error e = ''playlist is empty'')"
proof -
  have new: "count (built 2 3 []) = 0"
    by (simp add: built_def script_def NewMediaPlaylist_def SetWinSize_def new_MediaPlaylist_def)
  have live: "count example_ABC > 0 \<and> capacity example_ABC > 0" "\<not> Closed example_ABC"
    "head example_ABC = 0" "capacity example_ABC = 3" "count example_ABC = 3" "SeqNo example_ABC = 0"
    by (simp_all add: example_ABC_value)
  have closed: "count (Close example_ABC) > 0 \<and> capacity (Close example_ABC) > 0"
    "Closed (Close example_ABC)" "head (Close example_ABC) = 0" "capacity (Close example_ABC) = 3"
    "count (Close example_ABC) = 3" "SeqNo (Close example_ABC) = 0"
    by (simp_all add: example_ABC_value Close_def)
  from Remove_spec [of "built 2 3 []"] Remove_spec [of example_ABC] Remove_spec [of "Close example_ABC"]
    new live closed
  show ?thesis
    by (simp add: numeral_2_eq_2) (metis One_nat_def add.commute add_diff_cancel_left' mod_less
          numeral_3_eq_3 one_less_numeral_iff plus_1_eq_Suc semiring_norm(77) zero_less_diff)
qed

lemma example_AB_value:
  "example_AB =
     \<lparr>TargetDuration = 6, SeqNo = 0,
      Segments =
        [Some \<lparr>SeqId = 0, Title = [], URI = ''A'', Duration = 4, Limit = 0, Offset = 0, Key = None,
               Map = None, Discontinuity = False, Gap = False, SCTE = None, ProgramDateTime = 0,
               DateRange = [], Custom = []\<rparr>,
         Some \<lparr>SeqId = 1, Title = [], URI = ''B'', Duration = 6, Limit = 0, Offset = 0, Key = None,
               Map = None, Discontinuity = False, Gap = False, SCTE = None, ProgramDateTime = 0,
               DateRange = [], Custom = []\<rparr>,
         None],
      spare = [], Args = [], Iframe = False, Closed = False, MediaType = MediaType_0,
      DiscontinuitySeq = 0, StartTime = 0, StartTimePrecise = False, durationAsInt = False,
      winsize = 2, capacity = 3, head = 0, tail = 2, count = 2, buf = [], ver = 3, Key = None,
      Map = None, WV = None, Custom = [], independentSegments = False\<rparr>"
  by code_simp

lemma example_AB_encoded_value:
  "example_AB_encoded = example_AB\<lparr>MediaPlaylist.buf :=
     ''#EXTM3U\<newline>#EXT-X-VERSION:3\<newline>#EXT-X-MEDIA-SEQUENCE:0\<newline>#EXT-X-TARGETDURATION:6\<newline>#EXTINF:4.000,\<newline>A\<newline>#EXTINF:6.000,\<newline>B\<newline>''\<rparr>"
  by (simp add: example_AB_encoded_def example_AB_value Encode_eval)

subsection \<open>The cache of the encoder\<close>

text \<open>The loop only appends to the buffer it is given.\<close>

lemma Encode_loop_extends:
  "Encode_loop E p c h i dc b = Inr b' \<Longrightarrow> \<exists>r. b' = b @ r"
proof (induction E p c h i dc b rule: Encode_loop.induct)
  case (1 E p c h i dc b)
  show ?case
  proof (cases "(i < winsize p \<or> winsize p = 0) \<and> c > 0")
    case False
    with "1.prems" show ?thesis by (simp add: Encode_loop.simps)
  next
    case True
    note run = True
    from "1.prems" run have inr: "h < length (Segments p)" "capacity p \<noteq> 0"
      by (auto simp: Encode_loop.simps split: if_splits)
    show ?thesis
    proof (cases "Segments p ! h")
      case None
      with "1.prems" run inr
      have "Encode_loop E p (c - 1) ((h + 1) mod capacity p) i dc b = Inr b'"
        by (simp add: Encode_loop.simps)
      with "1.IH"(1) run inr None show ?thesis by simp
    next
      case (Some seg)
      obtain line dc' where ext: "Encode_EXTINF E p dc seg = (line, dc')"
        by (cases "Encode_EXTINF E p dc seg")
      let ?i = "if winsize p > 0 then i + 1 else i"
      let ?b = "b @ Encode_segment_tags E p seg"
      from "1.prems" run inr Some ext
      have step: "Encode_loop E p (c - 1) ((h + 1) mod capacity p) ?i dc' (?b @ line) = Inr b'"
        by (simp add: Encode_loop.simps [of E p c h i dc b] Let_def)
      have "\<exists>r. b' = (?b @ line) @ r"
        using "1.IH"(2) [OF run _ _ Some refl refl ext [symmetric] refl step] inr by simp
      then show ?thesis by auto
    qed
  qed
qed

text \<open>
  C9: for a media and for a master playlist, an \<^verbatim>\<open>Encode\<close> that returns leaves the
  playlist's buffer filled, and an \<^verbatim>\<open>Encode\<close> on a playlist with a filled buffer returns
  this playlist with this buffer as it is: two calls in a row return the same buffer with
  the same bytes. The buffer is the field of the playlist; there is no second instance.
\<close>

theorem Encode_memoized:
  "(\<forall>p'. Encode_MediaPlaylist E p = Inr p' \<longrightarrow>
      MediaPlaylist.buf p' \<noteq> [] \<and> Encode_MediaPlaylist E p' = Inr p') \<and>
   (MediaPlaylist.buf p \<noteq> [] \<longrightarrow> Encode_MediaPlaylist E p = Inr p) \<and>
   MasterPlaylist.buf (Encode_MasterPlaylist E q) \<noteq> [] \<and>
   Encode_MasterPlaylist E (Encode_MasterPlaylist E q) = Encode_MasterPlaylist E q \<and>
   (MasterPlaylist.buf q \<noteq> [] \<longrightarrow> Encode_MasterPlaylist E q = q)"
proof -
  have media: "MediaPlaylist.buf p' \<noteq> []" if "Encode_MediaPlaylist E p = Inr p'" for p'
  proof (cases "MediaPlaylist.buf p = []")
    case False
    with that show ?thesis by (simp add: Encode_MediaPlaylist_def)
  next
    case True
    with that obtain b where b: "Encode_loop E p (count p) (head p) 0 Map.empty (MediaPlaylist.buf p @ Encode_header E p) = Inr b"
      and p': "p' = p\<lparr>MediaPlaylist.buf := b @ (if Closed p then ''#EXT-X-ENDLIST\<newline>'' else [])\<rparr>"
      by (auto simp: Encode_MediaPlaylist_def split: sum.splits)
    from Encode_loop_extends [OF b] obtain r where "b = (MediaPlaylist.buf p @ Encode_header E p) @ r" ..
    then have "b \<noteq> []" by (simp add: Encode_header_def)
    with p' show ?thesis by simp
  qed
  have again: "Encode_MediaPlaylist E p' = Inr p'" if "MediaPlaylist.buf p' \<noteq> []" for p'
    using that by (simp add: Encode_MediaPlaylist_def)
  have master: "MasterPlaylist.buf (Encode_MasterPlaylist E q) \<noteq> []"
    by (simp add: Encode_MasterPlaylist_def)
  have master_again: "Encode_MasterPlaylist E q' = q'" if "MasterPlaylist.buf q' \<noteq> []" for q'
    using that by (simp add: Encode_MasterPlaylist_def)
  from media again master master_again show ?thesis by blast
qed

theorem Encode_memoized_witness:
  "Encode_MediaPlaylist example_stdlib example_ABC = Inr example_ABC_encoded \<and>
   MediaPlaylist.buf example_ABC_encoded \<noteq> [] \<and>
   Encode_MediaPlaylist example_stdlib example_ABC_encoded = Inr example_ABC_encoded \<and>
   MasterPlaylist.buf (Encode_MasterPlaylist example_stdlib (NewMasterPlaylist 3)) =
     ''#EXTM3U\<newline>#EXT-X-VERSION:3\<newline>'' \<and>
   Encode_MasterPlaylist example_stdlib (Encode_MasterPlaylist example_stdlib (NewMasterPlaylist 3)) =
     Encode_MasterPlaylist example_stdlib (NewMasterPlaylist 3)"
proof -
  have first: "Encode_MediaPlaylist example_stdlib example_ABC = Inr example_ABC_encoded"
    by (simp add: example_ABC_encoded_value) (simp add: example_ABC_value Encode_eval)
  have master: "MasterPlaylist.buf (Encode_MasterPlaylist example_stdlib (NewMasterPlaylist 3)) =
      ''#EXTM3U\<newline>#EXT-X-VERSION:3\<newline>''"
    by (simp add: Encode_MasterPlaylist_def NewMasterPlaylist_def strver_def FormatUint_digits)
  from Encode_memoized [of example_stdlib example_ABC "NewMasterPlaylist 3"] first master
  show ?thesis
    by simp
qed

subsection \<open>Which calls empty the cache\<close>

lemma returning_None: "returning r = Inr (None, p') \<longleftrightarrow> r = Inr p'"
  by (cases r) (auto simp: returning_def)

lemma set_last_buf: "set_last f p = Inr p' \<Longrightarrow> MediaPlaylist.buf p' = MediaPlaylist.buf p"
  by (auto simp: set_last_def Let_def split: if_splits option.splits)

lemma AppendSegment_resets: "AppendSegment seg p = Inr (None, p') \<Longrightarrow> MediaPlaylist.buf p' = []"
  by (auto simp: AppendSegment_def ResetCache_def Let_def split: if_splits sum.splits option.splits)

lemma Remove_resets: "Remove p = Inr (None, p') \<Longrightarrow> MediaPlaylist.buf p' = []"
  by (auto simp: Remove_def ResetCache_def Let_def split: if_splits)

lemma Remove_error: "Remove p = Inr (Some e, p') \<Longrightarrow> p' = p"
  by (auto simp: Remove_def ResetCache_def Let_def split: if_splits)

lemma AppendSegment_error: "AppendSegment seg p = Inr (Some e, p') \<Longrightarrow> p' = p"
  by (auto simp: AppendSegment_def ResetCache_def Let_def split: if_splits sum.splits option.splits)

lemma InsertSegments_resets: "InsertSegments segments seqID p = Inr (None, p') \<Longrightarrow> MediaPlaylist.buf p' = []"
  by (auto simp: InsertSegments_def ResetCache_def Let_def split: if_splits sum.splits prod.splits)

lemma Slide_cache: "Slide uri duration title p = Inr p' \<Longrightarrow> MediaPlaylist.buf p' = [] \<or> p' = p"
proof -
  assume s: "Slide uri duration title p = Inr p'"
  show ?thesis
  proof (cases "\<not> Closed p \<and> count p \<ge> winsize p")
    case False
    with s obtain err where a: "AppendSegment (new_MediaSegment\<lparr>MediaSegment.URI := uri, MediaSegment.Duration := duration, Title := title\<rparr>) p = Inr (err, p')"
      by (auto simp: Slide_def Append_def Let_def split: sum.splits)
    then show ?thesis
      by (cases err) (auto dest: AppendSegment_resets AppendSegment_error)
  next
    case True
    with s obtain e1 p1 err where r: "Remove p = Inr (e1, p1)"
      and a: "AppendSegment (new_MediaSegment\<lparr>MediaSegment.URI := uri, MediaSegment.Duration := duration, Title := title\<rparr>) p1 = Inr (err, p')"
      by (auto simp: Slide_def Append_def Let_def split: sum.splits)
    from r have p1: "MediaPlaylist.buf p1 = [] \<or> p1 = p"
      by (cases e1) (auto dest: Remove_resets Remove_error)
    from a have "MediaPlaylist.buf p' = [] \<or> p' = p1"
      by (cases err) (auto dest: AppendSegment_resets AppendSegment_error)
    with p1 show ?thesis by auto
  qed
qed

text \<open>
  C3, as the code has it: a successful \<^verbatim>\<open>Append\<close>, \<^verbatim>\<open>AppendSegment\<close>, \<^verbatim>\<open>InsertSegments\<close>,
  \<^verbatim>\<open>SetMediaSegments\<close> or \<^verbatim>\<open>Remove\<close> empties the cached buffer, and \<^verbatim>\<open>Slide\<close> empties it
  unless neither of its two steps succeeds. The setters of the current segment (\<^verbatim>\<open>SetKey\<close>,
  \<^verbatim>\<open>SetMap\<close>, \<^verbatim>\<open>SetRange\<close>, \<^verbatim>\<open>SetSCTE35\<close>, \<^verbatim>\<open>SetDateRange\<close>, \<^verbatim>\<open>AppendDateRange\<close>,
  \<^verbatim>\<open>SetDiscontinuity\<close>, \<^verbatim>\<open>SetGap\<close>, \<^verbatim>\<open>SetProgramDateTime\<close>, \<^verbatim>\<open>SetCustomSegmentTag\<close>) leave
  the cached buffer as it is, so that an \<^verbatim>\<open>Encode\<close> after a setter returns the buffer built
  before it when there is one.
\<close>

theorem cache_after_call:
  "do_call c p = Inr (None, p') \<Longrightarrow>
     (resets_cache c \<longrightarrow> MediaPlaylist.buf p' = []) \<and>
     (segment_setter c \<longrightarrow> MediaPlaylist.buf p' = MediaPlaylist.buf p) \<and>
     (segment_setter c \<and> MediaPlaylist.buf p \<noteq> [] \<longrightarrow> Encode_MediaPlaylist E p' = Inr p') \<and>
     ((\<exists>uri duration title. c = Call_Slide uri duration title) \<longrightarrow> MediaPlaylist.buf p' = [] \<or> p' = p)"
proof -
  assume call: "do_call c p = Inr (None, p')"
  have resets: "MediaPlaylist.buf p' = []" if "resets_cache c"
    using that call
    by (cases c)
       (auto simp: Append_def SetMediaSegments_def ResetCache_def Let_def
          dest: AppendSegment_resets Remove_resets InsertSegments_resets)
  have setter: "MediaPlaylist.buf p' = MediaPlaylist.buf p" if "segment_setter c"
    using that call
    by (cases c)
       (auto simp: SetKey_def SetMap_def SetRange_def SetSCTE_def SetSCTE35_def SetDateRange_def
          AppendDateRange_def SetDiscontinuity_def SetGap_def SetProgramDateTime_def
          SetCustomSegmentTag_def Let_def returning_None
          dest!: set_last_buf split: if_splits sum.splits option.splits)
  have stale: "Encode_MediaPlaylist E p' = Inr p'" if "segment_setter c" "MediaPlaylist.buf p \<noteq> []"
    using setter [OF that(1)] that(2) by (simp add: Encode_MediaPlaylist_def)
  have slide: "MediaPlaylist.buf p' = [] \<or> p' = p" if "c = Call_Slide uri duration title" for uri duration title
    using that call by (auto simp: returning_None dest: Slide_cache)
  from resets setter stale slide show ?thesis by blast
qed

lemma example_removed1_value:
  "example_removed1 = example_ABC\<lparr>SeqNo := 1, head := 1, count := 2\<rparr>"
  by code_simp

lemma example_removed2_value:
  "example_removed2 = example_ABC\<lparr>SeqNo := 2, head := 2, count := 1\<rparr>"
  by code_simp

text \<open>
  C3 as stated fails for the setters: on the encoded example with A and B,
  \<^verbatim>\<open>SetDiscontinuity\<close> succeeds and the cache stays filled; the next \<^verbatim>\<open>Encode\<close> returns the old
  bytes, without the discontinuity tag that the encoder writes once the cache is reset.
\<close>

theorem setter_keeps_cache_counterexample:
  "(case do_call Call_SetDiscontinuity example_AB_encoded of
      Inr (None, p') \<Rightarrow>
        MediaPlaylist.buf p' = MediaPlaylist.buf example_AB_encoded \<and>
        MediaPlaylist.buf p' \<noteq> [] \<and>
        String_MediaPlaylist example_stdlib p' =
          Inr ''#EXTM3U\<newline>#EXT-X-VERSION:3\<newline>#EXT-X-MEDIA-SEQUENCE:0\<newline>#EXT-X-TARGETDURATION:6\<newline>#EXTINF:4.000,\<newline>A\<newline>#EXTINF:6.000,\<newline>B\<newline>'' \<and>
        String_MediaPlaylist example_stdlib (ResetCache p') =
          Inr ''#EXTM3U\<newline>#EXT-X-VERSION:3\<newline>#EXT-X-MEDIA-SEQUENCE:0\<newline>#EXT-X-TARGETDURATION:6\<newline>#EXTINF:4.000,\<newline>A\<newline>#EXT-X-DISCONTINUITY\<newline>#EXTINF:6.000,\<newline>B\<newline>''
    | _ \<Rightarrow> False)"
  by (simp add: SetDiscontinuity_def set_last_def last_idx_def returning_def
        example_AB_encoded_value example_AB_value String_MediaPlaylist_def ResetCache_def Encode_eval)

theorem cache_after_call_witness:
  "(\<exists>p'. do_call Call_Remove example_ABC_encoded = Inr (None, p') \<and> MediaPlaylist.buf p' = []) \<and>
   (\<exists>p'. do_call Call_SetDiscontinuity example_AB_encoded = Inr (None, p') \<and>
      MediaPlaylist.buf p' = MediaPlaylist.buf example_AB_encoded \<and>
      Encode_MediaPlaylist example_stdlib p' = Inr p') \<and>
   (\<exists>p'. do_call (Call_Slide ''D'' 7 []) example_ABC_encoded = Inr (None, p') \<and>
      MediaPlaylist.buf p' = [])"
proof -
  obtain p1 where p1: "do_call Call_Remove example_ABC_encoded = Inr (None, p1)"
    by (simp add: Remove_def example_ABC_encoded_value example_ABC_value Let_def)
  obtain p2 where p2: "do_call Call_SetDiscontinuity example_AB_encoded = Inr (None, p2)"
    by (simp add: SetDiscontinuity_def set_last_def last_idx_def returning_def
          example_AB_encoded_value example_AB_value)
  obtain p3 where p3: "do_call (Call_Slide ''D'' 7 []) example_ABC_encoded = Inr (None, p3)"
    and b3: "p3 \<noteq> example_ABC_encoded"
    by (simp add: Slide_def Remove_def Append_def AppendSegment_def new_MediaSegment_def returning_def
          ResetCache_def example_ABC_encoded_value example_ABC_value Let_def)
  have full: "MediaPlaylist.buf example_AB_encoded \<noteq> []"
    by (simp add: example_AB_encoded_value)
  from cache_after_call [OF p1, of example_stdlib] cache_after_call [OF p2, of example_stdlib]
    cache_after_call [OF p3, of example_stdlib] p1 p2 p3 b3 full
  show ?thesis
    by simp
qed

subsection \<open>The window of the encoder\<close>

text \<open>
  C2, as the code has it: for capacity 3 and window 2, after A (4 s), B (6 s) and C (5 s)
  are appended, \<^verbatim>\<open>Encode\<close> writes media sequence 0, target duration 6, and the segments A
  and B: the walk starts at the head, which is the oldest segment, and stops after two
  segments, so the newest segment C is left out. This holds for every rendering of floats.
\<close>

theorem window_starts_at_head:
  "String_MediaPlaylist E example_ABC =
     Inr (''#EXTM3U\<newline>#EXT-X-VERSION:3\<newline>#EXT-X-MEDIA-SEQUENCE:0\<newline>#EXT-X-TARGETDURATION:6\<newline>'' @
          ''#EXTINF:'' @ FormatFloat E 4 3 32 @ '',\<newline>A\<newline>'' @
          ''#EXTINF:'' @ FormatFloat E 6 3 32 @ '',\<newline>B\<newline>'')"
  by (simp add: String_MediaPlaylist_def example_ABC_value Encode_MediaPlaylist_def Encode_header_def
        strver_def IndependentSegments_def FormatInt_def FormatUint_digits Encode_loop.simps
        Encode_segment_tags_def Encode_EXTINF_def IsZero_def Let_def)

text \<open>C2 as stated fails: the output holds A and B, and is not the output with B and C.\<close>

theorem window_B_C_counterexample:
  "String_MediaPlaylist example_stdlib example_ABC =
     Inr ''#EXTM3U\<newline>#EXT-X-VERSION:3\<newline>#EXT-X-MEDIA-SEQUENCE:0\<newline>#EXT-X-TARGETDURATION:6\<newline>#EXTINF:4.000,\<newline>A\<newline>#EXTINF:6.000,\<newline>B\<newline>'' \<and>
   String_MediaPlaylist example_stdlib example_ABC \<noteq>
     Inr ''#EXTM3U\<newline>#EXT-X-VERSION:3\<newline>#EXT-X-MEDIA-SEQUENCE:0\<newline>#EXT-X-TARGETDURATION:6\<newline>#EXTINF:6.000,\<newline>B\<newline>#EXTINF:5.000,\<newline>C\<newline>''"
  by (simp add: String_MediaPlaylist_def example_ABC_value Encode_eval)

subsection \<open>SetMediaSegments and the head\<close>

lemma Encode_loop_first:
  assumes "c > 0" "h < length (Segments p)" "capacity p \<noteq> 0" "Segments p ! h = Some seg"
    and "Encode_loop E p c h 0 dc b = Inr b'"
  shows "\<exists>r. b' = b @ Encode_segment_tags E p seg @ fst (Encode_EXTINF E p dc seg) @ r"
proof -
  obtain line dc' where ext: "Encode_EXTINF E p dc seg = (line, dc')"
    by (cases "Encode_EXTINF E p dc seg")
  have "Encode_loop E p c h 0 dc b =
      Encode_loop E p (c - 1) ((h + 1) mod capacity p) (if winsize p > 0 then 1 else 0) dc'
          ((b @ Encode_segment_tags E p seg) @ line)"
    by (subst Encode_loop.simps) (use assms(1-4) ext in \<open>auto simp: Let_def\<close>)
  with assms(5)
  have "Encode_loop E p (c - 1) ((h + 1) mod capacity p) (if winsize p > 0 then 1 else 0) dc'
          ((b @ Encode_segment_tags E p seg) @ line) = Inr b'"
    by simp
  from Encode_loop_extends [OF this] ext show ?thesis by auto
qed

lemma Encode_loop_out_of_range:
  "c > 0 \<Longrightarrow> h \<ge> length (Segments p) \<Longrightarrow> Encode_loop E p c h 0 dc b = Inl IndexOutOfRange"
  by (subst Encode_loop.simps) auto

lemma FormatUint_Suc_0: "FormatUint (Suc 0) = ''1''"
  by (simp add: FormatUint.simps)

text \<open>
  C10: \<^verbatim>\<open>SetMediaSegments\<close> sets count, tail and capacity to the length of the new list,
  empties the cache and leaves the head where it was. The \<^verbatim>\<open>Encode\<close> that follows starts
  its walk at that head: when the head is not below the length of a non-empty list, the
  access \<^verbatim>\<open>p.Segments[head]\<close> is out of range and the call panics; when the head is inside
  the list and holds a segment, this segment is the first one written.
\<close>

theorem SetMediaSegments_keeps_head:
  assumes "p' = SetMediaSegments segments segments_spare p"
  shows "head p' = head p \<and> count p' = length segments \<and> tail p' = length segments \<and>
     capacity p' = length segments \<and> Segments p' = segments \<and> MediaPlaylist.buf p' = [] \<and>
     (segments \<noteq> [] \<and> head p \<ge> length segments \<longrightarrow>
        Encode_MediaPlaylist E p' = Inl IndexOutOfRange) \<and>
     (\<forall>seg q. head p < length segments \<and> segments ! head p = Some seg \<and>
        Encode_MediaPlaylist E p' = Inr q \<longrightarrow>
        (\<exists>r. MediaPlaylist.buf q =
           Encode_header E p' @ Encode_segment_tags E p' seg @
           fst (Encode_EXTINF E p' Map.empty seg) @ r))"
proof -
  from assms have fields: "head p' = head p" "count p' = length segments" "tail p' = length segments"
    "capacity p' = length segments" "Segments p' = segments" "MediaPlaylist.buf p' = []"
    by (simp_all add: SetMediaSegments_def ResetCache_def Let_def)
  have out: "Encode_MediaPlaylist E p' = Inl IndexOutOfRange"
    if "segments \<noteq> []" "head p \<ge> length segments"
    using that fields
    by (simp add: Encode_MediaPlaylist_def Encode_loop_out_of_range)
  have first: "\<exists>r. MediaPlaylist.buf q =
      Encode_header E p' @ Encode_segment_tags E p' seg @ fst (Encode_EXTINF E p' Map.empty seg) @ r"
    if "head p < length segments" "segments ! head p = Some seg" "Encode_MediaPlaylist E p' = Inr q"
    for seg q
  proof -
    from that(3) fields obtain b
      where b: "Encode_loop E p' (count p') (head p') 0 Map.empty (Encode_header E p') = Inr b"
        and q: "q = p'\<lparr>MediaPlaylist.buf := b @ (if Closed p' then ''#EXT-X-ENDLIST\<newline>'' else [])\<rparr>"
      by (auto simp: Encode_MediaPlaylist_def split: sum.splits)
    from that fields have pre: "count p' > 0" "head p' < length (Segments p')" "capacity p' \<noteq> 0"
      "Segments p' ! head p' = Some seg"
      by auto
    from Encode_loop_first [OF pre b] q show ?thesis by auto
  qed
  from fields out first show ?thesis by blast
qed

text \<open>
  After two calls of \<^verbatim>\<open>Remove\<close> the head is 2, and a list of one segment makes \<^verbatim>\<open>Encode\<close>
  panic; after one call the head is 1, and of the list X, Y the encoder writes Y first.
\<close>

theorem SetMediaSegments_keeps_head_witness:
  "head example_removed2 = 2 \<and>
   head (SetMediaSegments [Some segment_X] [] example_removed2) = 2 \<and>
   Encode_MediaPlaylist example_stdlib (SetMediaSegments [Some segment_X] [] example_removed2) =
     Inl IndexOutOfRange \<and>
   head (SetMediaSegments [Some segment_X, Some segment_Y] [] example_removed1) = 1 \<and>
   String_MediaPlaylist example_stdlib (SetMediaSegments [Some segment_X, Some segment_Y] [] example_removed1) =
     Inr ''#EXTM3U\<newline>#EXT-X-VERSION:3\<newline>#EXT-X-MEDIA-SEQUENCE:1\<newline>#EXT-X-TARGETDURATION:6\<newline>#EXTINF:5.000,\<newline>Y\<newline>#EXTINF:4.000,\<newline>X\<newline>''"
proof -
  have h2: "head example_removed2 = 2" and h1: "head example_removed1 = 1"
    by (simp_all add: example_removed2_value example_removed1_value example_ABC_value)
  have enc: "String_MediaPlaylist example_stdlib (SetMediaSegments [Some segment_X, Some segment_Y] [] example_removed1) =
     Inr ''#EXTM3U\<newline>#EXT-X-VERSION:3\<newline>#EXT-X-MEDIA-SEQUENCE:1\<newline>#EXT-X-TARGETDURATION:6\<newline>#EXTINF:5.000,\<newline>Y\<newline>#EXTINF:4.000,\<newline>X\<newline>''"
    by (simp add: String_MediaPlaylist_def SetMediaSegments_def ResetCache_def segment_X_def segment_Y_def
          new_MediaSegment_def example_removed1_value example_ABC_value Encode_eval FormatUint_Suc_0)
  from SetMediaSegments_keeps_head [OF refl, of "[Some segment_X]" "[]" example_removed2 example_stdlib]
    SetMediaSegments_keeps_head [OF refl, of "[Some segment_X, Some segment_Y]" "[]" example_removed1 example_stdlib]
    h2 h1 enc
  show ?thesis by simp
qed

subsection \<open>The key of a segment\<close>

lemma example_keys_value:
  "example_keys =
     \<lparr>TargetDuration = 4, SeqNo = 0,
      Segments =
        [Some \<lparr>SeqId = 0, Title = [], URI = ''A'', Duration = 4, Limit = 0, Offset = 0,
               Key = Some (KeyPtr 2 \<lparr>Method = ''AES-128'', URI = ''k.bin'', IV = [], Keyformat = [],
                                     Keyformatversions = []\<rparr>),
               Map = None, Discontinuity = False, Gap = False, SCTE = None, ProgramDateTime = 0,
               DateRange = [], Custom = []\<rparr>,
         None, None],
      spare = [], Args = [], Iframe = False, Closed = False, MediaType = MediaType_0,
      DiscontinuitySeq = 0, StartTime = 0, StartTimePrecise = False, durationAsInt = False,
      winsize = 2, capacity = 3, head = 0, tail = 1, count = 1, buf = [], ver = 3,
      Key = Some (KeyPtr 1 \<lparr>Method = ''AES-128'', URI = ''k.bin'', IV = [], Keyformat = [],
                            Keyformatversions = []\<rparr>),
      Map = None, WV = None, Custom = [], independentSegments = False\<rparr>"
  by code_simp

text \<open>
  C8: of the tags of a segment, the key of the segment decides one part only, and this part
  is the \<^verbatim>\<open>#EXT-X-KEY\<close> line of the key when the reference is not nil and is not the
  reference of the playlist's default key, and is empty otherwise. The comparison is of
  references: a default key and a segment key at two addresses with the same content are
  both written, the first in the header and the second with the segment.
\<close>

theorem key_tag_by_identity:
  "(\<exists>pre post. \<forall>k. Encode_segment_tags E p (seg\<lparr>MediaSegment.Key := k\<rparr>) =
      pre @
      (case k of None \<Rightarrow> []
       | Some kp \<Rightarrow> if ptr_eq (MediaPlaylist.Key p) (Some kp) then [] else EXT_X_KEY (deref kp)) @
      post) \<and>
   (\<forall>a b k. a \<noteq> b \<and> MediaPlaylist.Key p = Some (KeyPtr a k) \<and> MediaSegment.Key seg = Some (KeyPtr b k) \<longrightarrow>
      (\<exists>pre post. Encode_header E p = pre @ EXT_X_KEY k @ post) \<and>
      (\<exists>pre post. Encode_segment_tags E p seg = pre @ EXT_X_KEY k @ post))"
proof -
  let ?pre = "case SCTE seg of None \<Rightarrow> [] | Some s \<Rightarrow> Encode_SCTE E s"
  let ?post = "drop (length ?pre) (Encode_segment_tags E p (seg\<lparr>MediaSegment.Key := None\<rparr>))"
  have one: "Encode_segment_tags E p (seg\<lparr>MediaSegment.Key := k\<rparr>) =
      ?pre @
      (case k of None \<Rightarrow> []
       | Some kp \<Rightarrow> if ptr_eq (MediaPlaylist.Key p) (Some kp) then [] else EXT_X_KEY (deref kp)) @
      ?post" for k
    by (cases k) (simp_all add: Encode_segment_tags_def)
  have two: "(\<exists>pre post. Encode_header E p = pre @ EXT_X_KEY k @ post) \<and>
      (\<exists>pre post. Encode_segment_tags E p seg = pre @ EXT_X_KEY k @ post)"
    if "a \<noteq> b" "MediaPlaylist.Key p = Some (KeyPtr a k)" "MediaSegment.Key seg = Some (KeyPtr b k)"
    for a b k
  proof
    let ?h1 = "''#EXTM3U\<newline>#EXT-X-VERSION:'' @ strver (MediaPlaylist.ver p) @ ''\<newline>'' @
     (if IndependentSegments p then ''#EXT-X-INDEPENDENT-SEGMENTS\<newline>'' else []) @
     Encode_Custom (MediaPlaylist.Custom p)"
    have "Encode_header E p = ?h1 @ EXT_X_KEY k @ drop (length (?h1 @ EXT_X_KEY k)) (Encode_header E p)"
      using that(2) by (simp add: Encode_header_def)
    then show "\<exists>pre post. Encode_header E p = pre @ EXT_X_KEY k @ post" by blast
    have "seg\<lparr>MediaSegment.Key := Some (KeyPtr b k)\<rparr> = seg"
      using that(3) by simp
    with one [of "Some (KeyPtr b k)"] that
    have "Encode_segment_tags E p seg = ?pre @ EXT_X_KEY k @ ?post" by simp
    then show "\<exists>pre post. Encode_segment_tags E p seg = pre @ EXT_X_KEY k @ post" by blast
  qed
  from one two show ?thesis by blast
qed

text \<open>
  \<^verbatim>\<open>SetDefaultKey\<close> and \<^verbatim>\<open>SetKey\<close> with the same arguments give two \<^verbatim>\<open>#EXT-X-KEY\<close> lines; a
  segment that shares the reference of the default key gives one.
\<close>

theorem key_tag_by_identity_witness:
  \<open>String_MediaPlaylist example_stdlib example_keys =
     Inr ''#EXTM3U\<newline>#EXT-X-VERSION:3\<newline>#EXT-X-KEY:METHOD=AES-128,URI="k.bin"\<newline>#EXT-X-MEDIA-SEQUENCE:0\<newline>#EXT-X-TARGETDURATION:4\<newline>#EXT-X-KEY:METHOD=AES-128,URI="k.bin"\<newline>#EXTINF:4.000,\<newline>A\<newline>'' \<and>
   String_MediaPlaylist example_stdlib example_key_shared =
     Inr ''#EXTM3U\<newline>#EXT-X-VERSION:3\<newline>#EXT-X-KEY:METHOD=AES-128,URI="k.bin"\<newline>#EXT-X-MEDIA-SEQUENCE:0\<newline>#EXT-X-TARGETDURATION:4\<newline>#EXTINF:4.000,\<newline>A\<newline>'' \<and>
   MediaPlaylist.Key example_keys = Some (KeyPtr 1 example_key) \<and>
   map (map_option MediaSegment.Key) (Segments example_keys) = [Some (Some (KeyPtr 2 example_key)), None, None] \<and>
   (\<exists>seg pre post. Segments example_keys ! 0 = Some seg \<and>
      Encode_segment_tags example_stdlib example_keys seg = pre @ EXT_X_KEY example_key @ post) \<and>
   EXT_X_KEY example_key = ''#EXT-X-KEY:METHOD=AES-128,URI="k.bin"\<newline>''\<close>
proof -
  have out: \<open>String_MediaPlaylist example_stdlib example_keys =
     Inr ''#EXTM3U\<newline>#EXT-X-VERSION:3\<newline>#EXT-X-KEY:METHOD=AES-128,URI="k.bin"\<newline>#EXT-X-MEDIA-SEQUENCE:0\<newline>#EXT-X-TARGETDURATION:4\<newline>#EXT-X-KEY:METHOD=AES-128,URI="k.bin"\<newline>#EXTINF:4.000,\<newline>A\<newline>''\<close>
    by (simp add: String_MediaPlaylist_def example_keys_value EXT_X_KEY_def Encode_eval)
  have shared: \<open>String_MediaPlaylist example_stdlib example_key_shared =
     Inr ''#EXTM3U\<newline>#EXT-X-VERSION:3\<newline>#EXT-X-KEY:METHOD=AES-128,URI="k.bin"\<newline>#EXT-X-MEDIA-SEQUENCE:0\<newline>#EXT-X-TARGETDURATION:4\<newline>#EXTINF:4.000,\<newline>A\<newline>''\<close>
    by (simp add: String_MediaPlaylist_def example_key_shared_def example_keys_value EXT_X_KEY_def Encode_eval)
  have line: \<open>EXT_X_KEY example_key = ''#EXT-X-KEY:METHOD=AES-128,URI="k.bin"\<newline>''\<close>
    by (simp add: EXT_X_KEY_def example_key_def)
  obtain seg where seg: "Segments example_keys ! 0 = Some seg"
    and key: "MediaSegment.Key seg = Some (KeyPtr 2 example_key)"
    by (simp add: example_keys_value example_key_def)
  have dflt: "MediaPlaylist.Key example_keys = Some (KeyPtr 1 example_key)"
    by (simp add: example_keys_value example_key_def)
  have keys: "map (map_option MediaSegment.Key) (Segments example_keys) = [Some (Some (KeyPtr 2 example_key)), None, None]"
    by (simp add: example_keys_value example_key_def)
  have "(1::nat) \<noteq> 2" by simp
  with key_tag_by_identity [of example_stdlib example_keys seg] dflt key
  have "\<exists>pre post. Encode_segment_tags example_stdlib example_keys seg = pre @ EXT_X_KEY example_key @ post"
    by blast
  with out shared line seg dflt keys show ?thesis by blast
qed

subsection \<open>The target duration\<close>

lemma set_last_TargetDuration: "set_last f p = Inr p' \<Longrightarrow> TargetDuration p' = TargetDuration p"
  by (auto simp: set_last_def Let_def split: if_splits option.splits)

lemma AppendSegment_TargetDuration:
  "AppendSegment seg p = Inr (err, p') \<Longrightarrow>
     TargetDuration p' = (if err = None \<and> TargetDuration p < MediaSegment.Duration seg
                          then of_int \<lceil>MediaSegment.Duration seg\<rceil> else TargetDuration p)"
  by (auto simp: AppendSegment_def ResetCache_def Let_def split: if_splits sum.splits option.splits)

lemma Remove_TargetDuration: "Remove p = Inr (err, p') \<Longrightarrow> TargetDuration p' = TargetDuration p"
  by (auto simp: Remove_def ResetCache_def Let_def split: if_splits)

lemma InsertSegments_TargetDuration:
  "InsertSegments segments seqID p = Inr (err, p') \<Longrightarrow> TargetDuration p' = TargetDuration p"
  by (auto simp: InsertSegments_def ResetCache_def Let_def split: if_splits sum.splits prod.splits)

lemma Encode_TargetDuration:
  "Encode_MediaPlaylist E p = Inr p' \<Longrightarrow> TargetDuration p' = TargetDuration p"
  by (auto simp: Encode_MediaPlaylist_def split: if_splits sum.splits)

lemma grows_le: "grows t t' \<Longrightarrow> t \<le> t'"
proof -
  assume "grows t t'"
  then consider "t' = t" | d where "t < d" "t' = of_int \<lceil>d\<rceil>"
    by (auto simp: grows_def)
  then show ?thesis
  proof cases
    case 1
    then show ?thesis by simp
  next
    case 2
    from 2 le_of_int_ceiling [of d] show ?thesis by linarith
  qed
qed

lemma grows_whole: "grows t t' \<Longrightarrow> whole t \<Longrightarrow> whole t'"
  by (auto simp: grows_def whole_def)

lemma AppendSegment_grows: "AppendSegment seg p = Inr (err, p') \<Longrightarrow> grows (TargetDuration p) (TargetDuration p')"
  by (drule AppendSegment_TargetDuration) (auto simp: grows_def)

lemma Slide_grows: "Slide uri duration title p = Inr p' \<Longrightarrow> grows (TargetDuration p) (TargetDuration p')"
  by (auto simp: Slide_def Append_def Let_def split: if_splits sum.splits
        dest!: Remove_TargetDuration AppendSegment_grows)

lemma do_call_grows: "do_call c p = Inr (err, p') \<Longrightarrow> grows (TargetDuration p) (TargetDuration p')"
proof (cases c)
  case (Call_Append uri duration title)
  then show "do_call c p = Inr (err, p') \<Longrightarrow> ?thesis"
    by (auto simp: Append_def Let_def dest: AppendSegment_grows)
next
  case (Call_AppendSegment seg)
  then show "do_call c p = Inr (err, p') \<Longrightarrow> ?thesis"
    by (auto dest: AppendSegment_grows)
next
  case (Call_Slide uri duration title)
  then show "do_call c p = Inr (err, p') \<Longrightarrow> ?thesis"
    by (cases "Slide uri duration title p") (auto simp: returning_def dest: Slide_grows)
next
  case (Call_Encode E)
  then show "do_call c p = Inr (err, p') \<Longrightarrow> ?thesis"
    by (cases "Encode_MediaPlaylist E p") (auto simp: returning_def grows_def dest: Encode_TargetDuration)
qed (auto simp: grows_def SetMediaSegments_def ResetCache_def SetKey_def SetMap_def SetRange_def
       SetSCTE_def SetSCTE35_def SetDateRange_def AppendDateRange_def SetDiscontinuity_def SetGap_def
       SetProgramDateTime_def SetCustomSegmentTag_def SetWinSize_def SetDefaultKey_def
       SetDefaultMap_def SetIframeOnly_def SetCustomTag_def SetVersion_def
       SetIndependentSegments_def DurationAsInt_def Close_def Let_def returning_def
       dest!: Remove_TargetDuration InsertSegments_TargetDuration set_last_TargetDuration
       split: if_splits sum.splits option.splits)

lemma run_grows:
  "run cs p = Inr (errs, p') \<Longrightarrow>
     TargetDuration p \<le> TargetDuration p' \<and> (whole (TargetDuration p) \<longrightarrow> whole (TargetDuration p'))"
proof (induction cs arbitrary: p errs)
  case Nil
  then show ?case by simp
next
  case (Cons c cs)
  from Cons.prems obtain err p1 errs1 where c: "do_call c p = Inr (err, p1)"
    and rest: "run cs p1 = Inr (errs1, p')"
    by (auto split: sum.splits)
  from do_call_grows [OF c] Cons.IH [OF rest] show ?case
    by (auto dest: grows_le grows_whole)
qed

lemma NewMediaPlaylist_whole: "NewMediaPlaylist minver w c = Inr p \<Longrightarrow> TargetDuration p = 0"
  by (auto simp: NewMediaPlaylist_def SetWinSize_def new_MediaPlaylist_def Let_def split: if_splits)

lemma whole_max:
  assumes "whole t" shows "(if t < d then of_int \<lceil>d\<rceil> else t) = max t (of_int \<lceil>d\<rceil>)"
proof (cases "t < d")
  case True
  from True le_of_int_ceiling [of d] have "t \<le> of_int \<lceil>d\<rceil>" by linarith
  with True show ?thesis by (simp add: max_def)
next
  case False
  then have "d \<le> t" by simp
  then have "\<lceil>d\<rceil> \<le> \<lceil>t\<rceil>" by (rule ceiling_mono)
  then have "(of_int \<lceil>d\<rceil> :: rat) \<le> of_int \<lceil>t\<rceil>" by simp
  with assms have "of_int \<lceil>d\<rceil> \<le> t" by (simp add: whole_def)
  with False show ?thesis by (simp add: max_def)
qed

text \<open>
  C4: an append of a segment of duration \<open>d\<close> sets the target duration to the ceiling
  of \<open>d\<close> when \<open>d\<close> is above it and leaves it otherwise; the target duration is a whole
  number in every playlist reached from the constructor by calls of the methods, and on a
  whole target duration \<open>t\<close> the append gives the maximum of \<open>t\<close> and the ceiling of
  \<open>d\<close>. No sequence of calls, removals included, makes the target duration smaller.
\<close>

theorem TargetDuration_never_decreases:
  "(\<forall>p'. AppendSegment seg p = Inr (None, p') \<longrightarrow>
      TargetDuration p' =
        (if TargetDuration p < MediaSegment.Duration seg then of_int \<lceil>MediaSegment.Duration seg\<rceil>
         else TargetDuration p) \<and>
      TargetDuration p \<le> TargetDuration p' \<and>
      (whole (TargetDuration p) \<longrightarrow>
         TargetDuration p' = max (TargetDuration p) (of_int \<lceil>MediaSegment.Duration seg\<rceil>))) \<and>
   (\<forall>errs p'. run cs p = Inr (errs, p') \<longrightarrow> TargetDuration p \<le> TargetDuration p') \<and>
   (\<forall>minver w c p0 errs q q'.
      NewMediaPlaylist minver w c = Inr p0 \<and> run cs p0 = Inr (errs, q) \<and>
      AppendSegment seg q = Inr (None, q') \<longrightarrow>
      TargetDuration q' = max (TargetDuration q) (of_int \<lceil>MediaSegment.Duration seg\<rceil>))"
proof -
  have step: "TargetDuration p' =
        (if TargetDuration p < MediaSegment.Duration seg then of_int \<lceil>MediaSegment.Duration seg\<rceil>
         else TargetDuration p)" if "AppendSegment seg p = Inr (None, p')" for p p'
    using AppendSegment_TargetDuration [OF that] by simp
  have le: "TargetDuration p \<le> TargetDuration p'" if "AppendSegment seg p = Inr (None, p')" for p'
    using AppendSegment_grows [OF that] by (rule grows_le)
  have mx: "TargetDuration p' = max (TargetDuration p) (of_int \<lceil>MediaSegment.Duration seg\<rceil>)"
    if "AppendSegment seg p = Inr (None, p')" "whole (TargetDuration p)" for p p'
    using step [OF that(1)] whole_max [OF that(2)] by simp
  have runs: "TargetDuration p \<le> TargetDuration p'" if "run cs p = Inr (errs, p')" for errs p'
    using run_grows [OF that] by simp
  have reach: "TargetDuration q' = max (TargetDuration q) (of_int \<lceil>MediaSegment.Duration seg\<rceil>)"
    if "NewMediaPlaylist minver w c = Inr p0" "run cs p0 = Inr (errs, q)"
       "AppendSegment seg q = Inr (None, q')" for minver w c p0 errs q q'
  proof -
    from NewMediaPlaylist_whole [OF that(1)] have "whole (TargetDuration p0)"
      by (simp add: whole_def)
    with run_grows [OF that(2)] have "whole (TargetDuration q)" by simp
    with that(3) show ?thesis by (rule mx)
  qed
  from step le mx runs reach show ?thesis by blast
qed

lemma example_new_value:
  "example_new = new_MediaPlaylist\<lparr>MediaPlaylist.ver := 3, capacity := 3, winsize := 2, Segments := [None, None, None]\<rparr>"
  by (simp add: example_new_def built_def script_def NewMediaPlaylist_def SetWinSize_def numeral_3_eq_3)

text \<open>
  On the example with A and B the target duration is 6: it stays 6 when C (5 s) is
  appended and when both segments, the longest included, are removed.
\<close>

theorem TargetDuration_never_decreases_witness:
  "(\<exists>p'. AppendSegment segment_C example_AB = Inr (None, p') \<and> TargetDuration example_AB = 6 \<and>
      TargetDuration p' = 6) \<and>
   (\<exists>errs p'. run [Call_Remove, Call_Remove] example_AB = Inr (errs, p') \<and> count p' = 0 \<and>
      TargetDuration p' = 6) \<and>
   (\<exists>p0 errs q q'. NewMediaPlaylist 3 2 3 = Inr p0 \<and> run [Call_Remove, Call_Remove] p0 = Inr (errs, q) \<and>
      AppendSegment segment_C q = Inr (None, q') \<and> TargetDuration q' = 5)"
proof -
  have t: "TargetDuration example_AB = 6"
    by (simp add: example_AB_value)
  obtain p1 where p1: "AppendSegment segment_C example_AB = Inr (None, p1)"
    by (simp add: AppendSegment_def example_AB_value segment_C_def new_MediaSegment_def Let_def)
  obtain errs p2 where p2: "run [Call_Remove, Call_Remove] example_AB = Inr (errs, p2)"
    and c2: "count p2 = 0"
    by (simp add: Remove_def ResetCache_def example_AB_value Let_def)
  obtain p0 where p0: "NewMediaPlaylist 3 2 3 = Inr p0" and v0: "p0 = example_new"
    by (simp add: example_new_def built_def script_def NewMediaPlaylist_def SetWinSize_def)
  have r0: "run [Call_Remove, Call_Remove] p0 =
      Inr ([Some (errors_New ''playlist is empty''), Some (errors_New ''playlist is empty'')], p0)"
    by (simp add: v0 example_new_value new_MediaPlaylist_def Remove_def)
  obtain q' where q': "AppendSegment segment_C p0 = Inr (None, q')"
    by (simp add: v0 example_new_value new_MediaPlaylist_def AppendSegment_def segment_C_def
          new_MediaSegment_def Let_def)
  have d: "MediaSegment.Duration segment_C = 5" "whole 6" "\<lceil>5::rat\<rceil> = 5"
    by (simp_all add: segment_C_def new_MediaSegment_def whole_def)
  note thm1 = TargetDuration_never_decreases [of segment_C example_AB "[Call_Remove, Call_Remove]"]
  from thm1 p1 t d have "TargetDuration p1 = 6"
    by (auto simp: max_def)
  moreover from thm1 p2 t have "6 \<le> TargetDuration p2" by auto
  moreover from p2 have "TargetDuration p2 = TargetDuration example_AB"
    by (auto simp: Remove_def ResetCache_def Let_def split: if_splits sum.splits prod.splits)
  moreover from thm1 p0 r0 q' d have "TargetDuration q' = max (TargetDuration p0) 5"
    by (metis of_int_numeral)
  moreover have "TargetDuration p0 = 0"
    by (simp add: v0 example_new_value new_MediaPlaylist_def)
  ultimately show ?thesis using p1 p2 c2 p0 r0 q' t by (auto simp: max_def)
qed

subsection \<open>Sequence ids of appended segments\<close>









end
